theory Spec2Isabelle
  imports Complex_Main "HOL-Library.Multiset" "HOL-Library.Sublist"
begin

section \<open>JavaScript values and numeric helpers\<close>

text \<open>
  The weather orchestrator is JavaScript. A number is modelled by the real it denotes
  (\<open>NaN\<close> and the infinities are left out): every threshold of the code (25, 40, 5, 15, 0,
  35, 1000, 500) and every confidence literal is compared or returned as written, so the
  comparisons of the model are the comparisons of the code on the values it holds.
  \<open>null\<close> is \<open>None\<close>.
\<close>

text \<open>
  Arithmetic is IEEE 754 binary64: the result of \<open>+\<close>, \<open>-\<close> or \<open>*\<close> is the exact result
  rounded to the nearest double, a tie going to the even significand. \<open>binary64 x\<close> is that
  double: \<open>e\<close> is the exponent of \<open>x\<close> (not below that of the subnormals), \<open>ulp\<close> the spacing
  of the doubles there. A result beyond the largest double is \<open>Infinity\<close> in the code; the
  model keeps the rounded real, which compares with every threshold as \<open>Infinity\<close> does.
\<close>

definition pow2 :: "int \<Rightarrow> real" where
  "pow2 e = (if e \<ge> 0 then 2 ^ nat e else 1 / 2 ^ nat (- e))"

definition round_ties_even :: "real \<Rightarrow> int" where
  "round_ties_even q =
     (let f = \<lfloor>q\<rfloor>; d = q - of_int f in
      if d < 1 / 2 then f
      else if d > 1 / 2 then f + 1
      else if even f then f else f + 1)"

definition binary64 :: "real \<Rightarrow> real" where
  "binary64 x =
     (if x = 0 then 0
      else
        let e = max \<lfloor>log 2 \<bar>x\<bar>\<rfloor> (- 1022); ulp = pow2 (e - 52)
        in of_int (round_ties_even (x / ulp)) * ulp)"

text \<open>\<open>ToNumber\<close> of a number-or-null field: relational operators coerce \<open>null\<close> to 0.\<close>

definition ToNumber :: "real option \<Rightarrow> real" where
  "ToNumber v = (case v of None \<Rightarrow> 0 | Some x \<Rightarrow> x)"

text \<open>Truthiness of a number-or-null field: \<open>null\<close> and \<open>0\<close> are falsy.\<close>

definition truthy :: "real option \<Rightarrow> bool" where
  "truthy v = (case v of None \<Rightarrow> False | Some x \<Rightarrow> x \<noteq> 0)"

text \<open>\<open>Math.round\<close>: the nearest integer, a tie going up.\<close>

definition Math_round :: "real \<Rightarrow> int" where
  "Math_round x = \<lfloor>x + 1 / 2\<rfloor>"

text \<open>
  \<open>x.toFixed(d)\<close>: the decimal string of \<open>x\<close> with \<open>d\<close> fraction digits. The string is a
  minus sign when \<open>x < 0\<close>, followed by the digits of the integer nearest to
  \<open>|x| * 10^d\<close> (a tie going up); the pair below determines the string and is determined
  by it.
\<close>

definition toFixed :: "nat \<Rightarrow> real \<Rightarrow> bool \<times> nat" where
  "toFixed d x = (x < 0, nat \<lfloor>\<bar>x\<bar> * 10 ^ d + 1 / 2\<rfloor>)"

section \<open>Data model\<close>

datatype provider = Meteoblue | Aemet | Windy | Meteored

text \<open>The provider's name, as the key of the \<open>providers\<close> object and the \<open>name\<close> field.\<close>

fun provider_name :: "provider \<Rightarrow> string" where
  "provider_name Meteoblue = ''meteoblue''"
| "provider_name Aemet = ''aemet''"
| "provider_name Windy = ''windy''"
| "provider_name Meteored = ''meteored''"

text \<open>Wind direction is degrees for meteoblue and Windy, compass text for AEMET and Meteored.\<close>

datatype wind_direction = Degrees real | Compass string

text \<open>
  The object every adapter's \<open>parseResponse\<close> builds: the same eleven keys in all four
  adapters. \<open>timestamp\<close> is the ISO string of a date, modelled by its epoch milliseconds.
\<close>

record ProviderRecord =
  temperature :: "real option"
  windSpeed :: "real option"
  windDirection :: "wind_direction option"
  precipitation :: "real option"
  humidity :: "real option"
  pressure :: "real option"
  cloudCover :: "real option"
  visibility :: "real option"
  timestamp :: int
  provider :: provider
  confidence :: real

text \<open>An element of \<open>weatherSources\<close>: \<open>{ provider, data, cached }\<close>.\<close>

record WeatherSource =
  provider :: provider
  data :: ProviderRecord
  cached :: bool

text \<open>
  A discrepancy warning is a fixed Spanish sentence followed by the range printed with
  \<open>toFixed(1)\<close>; the constructor stands for the sentence.
\<close>

datatype warning = TemperatureVariation "bool \<times> nat" | WindVariation "bool \<times> nat"

text \<open>
  The \<open>merged\<close> object of \<open>mergeWeatherData\<close>. \<open>timestamp\<close> and \<open>provider\<close> are not keys of
  the object literal; \<open>Object.assign\<close> adds them (\<open>None\<close> is the missing key).
\<close>

record FusedRecord =
  temperature :: "real option"
  windSpeed :: "real option"
  windDirection :: "wind_direction option"
  precipitation :: "real option"
  humidity :: "real option"
  pressure :: "real option"
  cloudCover :: "real option"
  visibility :: "real option"
  sources :: "provider list"
  primary :: provider
  confidence :: real
  warnings :: "warning list"
  timestamp :: "int option"
  provider :: "provider option"

datatype js_error = TypeError | RangeError | NoWeatherData

section \<open>Fusion engine\<close>

text \<open>\<open>const priority = { meteoblue: 4, aemet: 3, windy: 2, meteored: 1 }\<close>\<close>

fun priority :: "provider \<Rightarrow> int" where
  "priority Meteoblue = 4"
| "priority Aemet = 3"
| "priority Windy = 2"
| "priority Meteored = 1"

definition calculateConfidence :: "WeatherSource list \<Rightarrow> real" where
  "calculateConfidence srcs =
     (if length srcs = 1 then 0.75
      else if length srcs = 2 then 0.85
      else if length srcs \<ge> 3 then 0.95
      else 0.5)"

text \<open>
  \<open>srcs.map(s => s.data.temperature).filter(t => t !== null)\<close> and the same for
  \<open>windSpeed\<close>.
\<close>

definition temperatures_of :: "WeatherSource list \<Rightarrow> real list" where
  "temperatures_of srcs = List.map_filter (\<lambda>s. ProviderRecord.temperature (data s)) srcs"

definition windSpeeds_of :: "WeatherSource list \<Rightarrow> real list" where
  "windSpeeds_of srcs = List.map_filter (\<lambda>s. ProviderRecord.windSpeed (data s)) srcs"

text \<open>
  \<open>Math.max(...xs) - Math.min(...xs)\<close> under the guard \<open>xs.length >= 2\<close>: the guard is the
  pattern, so the spread of fewer than two values is never computed (\<open>None\<close>). The
  subtraction is the doubles', so the difference is rounded.
\<close>

fun range_of :: "real list \<Rightarrow> real option" where
  "range_of (x # y # ys) = Some (binary64 (fold max (y # ys) x - fold min (y # ys) x))"
| "range_of _ = None"

definition detectWeatherInconsistencies :: "FusedRecord \<Rightarrow> WeatherSource list \<Rightarrow> FusedRecord" where
  "detectWeatherInconsistencies merged srcs =
     (if length srcs < 2 then merged
      else
        let merged1 =
              (case range_of (temperatures_of srcs) of
                 None \<Rightarrow> merged
               | Some tempRange \<Rightarrow>
                   if tempRange > 5
                   then merged\<lparr>warnings := warnings merged @ [TemperatureVariation (toFixed 1 tempRange)]\<rparr>
                   else merged)
        in (case range_of (windSpeeds_of srcs) of
              None \<Rightarrow> merged1
            | Some windRange \<Rightarrow>
                if windRange > 15
                then merged1\<lparr>warnings := warnings merged1 @ [WindVariation (toFixed 1 windRange)]\<rparr>
                else merged1))"

text \<open>
  \<open>srcs.sort((a, b) => priority[b.provider] - priority[a.provider])\<close>: a stable sort,
  descending in priority. The sort is in place, so \<open>sources\<close> and \<open>sortedSources\<close> are the
  same sorted array afterwards.
\<close>

definition sortSources :: "WeatherSource list \<Rightarrow> WeatherSource list" where
  "sortSources srcs = sort_key (\<lambda>s. - priority (WeatherSource.provider s)) srcs"

text \<open>
  \<open>Object.assign(merged, primaryData)\<close> copies every own key of \<open>primaryData\<close>: the eight
  weather fields, \<open>timestamp\<close>, \<open>provider\<close> and \<open>confidence\<close>.
\<close>

definition Object_assign :: "FusedRecord \<Rightarrow> ProviderRecord \<Rightarrow> FusedRecord" where
  "Object_assign merged primaryData =
     merged\<lparr>FusedRecord.temperature := ProviderRecord.temperature primaryData,
            FusedRecord.windSpeed := ProviderRecord.windSpeed primaryData,
            FusedRecord.windDirection := ProviderRecord.windDirection primaryData,
            FusedRecord.precipitation := ProviderRecord.precipitation primaryData,
            FusedRecord.humidity := ProviderRecord.humidity primaryData,
            FusedRecord.pressure := ProviderRecord.pressure primaryData,
            FusedRecord.cloudCover := ProviderRecord.cloudCover primaryData,
            FusedRecord.visibility := ProviderRecord.visibility primaryData,
            FusedRecord.timestamp := Some (ProviderRecord.timestamp primaryData),
            FusedRecord.provider := Some (ProviderRecord.provider primaryData),
            FusedRecord.confidence := ProviderRecord.confidence primaryData\<rparr>"

text \<open>
  \<open>mergeWeatherData\<close>. On an empty array \<open>sortedSources[0].provider\<close> reads a property of
  \<open>undefined\<close> and throws a \<open>TypeError\<close>.
\<close>

definition mergeWeatherData :: "WeatherSource list \<Rightarrow> js_error + FusedRecord" where
  "mergeWeatherData srcs =
     (let sortedSources = sortSources srcs in
      case sortedSources of
        [] \<Rightarrow> Inl TypeError
      | s0 # _ \<Rightarrow>
          let merged =
                \<lparr>FusedRecord.temperature = None,
                 FusedRecord.windSpeed = None,
                 FusedRecord.windDirection = None,
                 FusedRecord.precipitation = None,
                 FusedRecord.humidity = None,
                 FusedRecord.pressure = None,
                 FusedRecord.cloudCover = None,
                 FusedRecord.visibility = None,
                 sources = map WeatherSource.provider sortedSources,
                 primary = WeatherSource.provider s0,
                 FusedRecord.confidence = calculateConfidence sortedSources,
                 warnings = [],
                 FusedRecord.timestamp = None,
                 FusedRecord.provider = None\<rparr>;
              primaryData = data s0;
              merged1 = Object_assign merged primaryData
          in Inr (if length sortedSources > 1
                  then detectWeatherInconsistencies merged1 sortedSources
                  else merged1))"

section \<open>Risk classifier\<close>

record Waypoint =
  lat :: real
  lon :: real
  estimatedTimeFromStart :: "real option"

text \<open>
  An element of \<open>weatherResults\<close>: \<open>{ waypoint, weather, error?, timestamp }\<close>. \<open>error\<close> holds
  the caught error's message, modelled by the error.
\<close>

record WeatherResult =
  waypoint :: Waypoint
  weather :: "FusedRecord option"
  error :: "js_error option"
  timestamp :: int

datatype risk_type = WindRisk | PrecipitationRisk | TemperatureRisk | VisibilityRisk

datatype risk_level = High | Medium

text \<open>
  A pushed risk object. \<open>message\<close> is a fixed sentence per type around the printed field,
  modelled by the field; \<open>location\<close> is the number in \<open>Punto ${index + 1}\<close>.
\<close>

record RiskAlert =
  risk :: risk_type
  level :: risk_level
  message :: "real option"
  location :: nat
  coordinates :: "real \<times> real"
  timestamp :: int

text \<open>
  The callback of \<open>weatherResults.forEach\<close>: the risks one result pushes, in the order of
  the four \<open>if\<close> statements. A comparison with a \<open>null\<close> field compares with 0.
\<close>

definition risksOf :: "nat \<Rightarrow> WeatherResult \<Rightarrow> RiskAlert list" where
  "risksOf index result =
     (case weather result of
        None \<Rightarrow> []
      | Some w \<Rightarrow>
          (let wp = waypoint result;
               alert = (\<lambda>ty lv msg.
                 \<lparr>risk = ty, level = lv, message = msg, location = index + 1,
                  coordinates = (lat wp, lon wp),
                  RiskAlert.timestamp = WeatherResult.timestamp result\<rparr>)
           in
             (if ToNumber (FusedRecord.windSpeed w) > 25
              then [alert WindRisk
                      (if ToNumber (FusedRecord.windSpeed w) > 40 then High else Medium)
                      (FusedRecord.windSpeed w)]
              else []) @
             (if ToNumber (FusedRecord.precipitation w) > 5
              then [alert PrecipitationRisk
                      (if ToNumber (FusedRecord.precipitation w) > 15 then High else Medium)
                      (FusedRecord.precipitation w)]
              else []) @
             (if ToNumber (FusedRecord.temperature w) < 0 \<or> ToNumber (FusedRecord.temperature w) > 35
              then [alert TemperatureRisk Medium (FusedRecord.temperature w)]
              else []) @
             (if truthy (FusedRecord.visibility w) \<and> ToNumber (FusedRecord.visibility w) < 1000
              then [alert VisibilityRisk
                      (if ToNumber (FusedRecord.visibility w) < 500 then High else Medium)
                      (FusedRecord.visibility w)]
              else [])))"

definition identifyRisks :: "WeatherResult list \<Rightarrow> RiskAlert list" where
  "identifyRisks weatherResults =
     concat (map (\<lambda>(index, result). risksOf index result) (enumerate 0 weatherResults))"

text \<open>\<open>getUsedSources\<close>: the providers of the fused records, each once, in first-seen order.\<close>

definition getUsedSources :: "WeatherResult list \<Rightarrow> provider list" where
  "getUsedSources weatherResults =
     rev (remdups (rev (concat (map (\<lambda>r. case weather r of None \<Rightarrow> [] | Some w \<Rightarrow> sources w)
       weatherResults))))"

section \<open>Cache store\<close>

text \<open>
  The three key templates of the service,
  \<open>weather:${provider}:${lat.toFixed(3)}:${lon.toFixed(3)}:${hour}\<close>,
  \<open>ratelimit:${apiName}:${userId}\<close> and \<open>api_stats:${apiName}:${isoHour}\<close>, have distinct
  prefixes; a key is modelled by its template and the values printed into it. \<open>hour\<close> is
  \<open>Math.floor(timestamp.getTime()/3600000)\<close>, which prints \<open>NaN\<close> (\<open>None\<close>) for an invalid date;
  the quotient of a date's milliseconds is rounded by less than its distance to the next
  integer, so its floor is that of the exact quotient. \<open>isoHour\<close> is the first 13
  characters of the ISO date, that is the hour since the epoch.
\<close>

datatype redis_key =
    WeatherKey provider "bool \<times> nat" "bool \<times> nat" "int option"
  | RateLimitKey string string
  | ApiStatsKey string int

record ApiStats =
  calls :: int
  successes :: int
  errors :: int
  totalResponseTime :: real
  avgResponseTime :: real

text \<open>
  A stored string is the decimal of a counter (what \<open>INCR\<close> writes), the JSON of a provider
  record or the JSON of a statistics object. \<open>JSON.parse (JSON.stringify r)\<close> gives back
  the fields of \<open>r\<close>, so the model stores the object.
\<close>

datatype redis_value = IntVal int | RecordVal ProviderRecord | StatsVal ApiStats

text \<open>
  The client is \<open>Disconnected\<close> when \<open>isAvailable()\<close> is false; it is \<open>Failing\<close> when it counts
  as connected and every command rejects (a command timeout, a server error).
\<close>

datatype connection = Connected | Disconnected | Failing

text \<open>
  The wrapper's view of the connection, and the server's keyspace: a value and its expiry
  time in epoch milliseconds, if any.
\<close>

record RedisClient =
  connection :: connection
  db :: "redis_key \<Rightarrow> (redis_value \<times> int option) option"

text \<open>
  The constructor: \<open>new Redis(url, { ..., lazyConnect: true })\<close> and \<open>isConnected = false\<close>,
  whatever the server holds.
\<close>

definition RedisClient_new :: "(redis_key \<Rightarrow> (redis_value \<times> int option) option) \<Rightarrow> RedisClient" where
  "RedisClient_new keyspace = \<lparr>connection = Disconnected, db = keyspace\<rparr>"

text \<open>What the server holds under an entry at time \<open>now\<close>: an expired entry is gone.\<close>

definition live :: "int \<Rightarrow> (redis_value \<times> int option) option \<Rightarrow> (redis_value \<times> int option) option" where
  "live now e =
     (case e of
        None \<Rightarrow> None
      | Some (v, None) \<Rightarrow> Some (v, None)
      | Some (v, Some t) \<Rightarrow> if t \<le> now then None else Some (v, Some t))"

definition RedisClient_get :: "int \<Rightarrow> redis_key \<Rightarrow> RedisClient \<Rightarrow> redis_value option" where
  "RedisClient_get now key rc =
     (if connection rc = Disconnected then None
      else if connection rc = Failing then None
      else map_option fst (live now (db rc key)))"

text \<open>\<open>set(key, value, ttl = null)\<close>: \<open>if (ttl)\<close> takes \<open>SETEX\<close>, a missing or zero ttl plain \<open>SET\<close>.\<close>

definition RedisClient_set :: "int \<Rightarrow> redis_key \<Rightarrow> redis_value \<Rightarrow> nat option \<Rightarrow> RedisClient \<Rightarrow> bool \<times> RedisClient" where
  "RedisClient_set now key val ttl rc =
     (if connection rc = Disconnected then (False, rc)
      else if connection rc = Failing then (False, rc)
      else (case ttl of
              None \<Rightarrow> (True, rc\<lparr>db := (db rc)(key \<mapsto> (val, None))\<rparr>)
            | Some n \<Rightarrow>
                if n = 0 then (True, rc\<lparr>db := (db rc)(key \<mapsto> (val, None))\<rparr>)
                else (True, rc\<lparr>db := (db rc)(key \<mapsto> (val, Some (now + int n * 1000)))\<rparr>)))"

definition RedisClient_setex :: "int \<Rightarrow> redis_key \<Rightarrow> nat \<Rightarrow> redis_value \<Rightarrow> RedisClient \<Rightarrow> bool \<times> RedisClient" where
  "RedisClient_setex now key ttl val rc = RedisClient_set now key val (Some ttl) rc"

text \<open>
  \<open>INCR\<close> creates a missing key at 0 before adding one and keeps the expiry of an existing
  one; on a value that is not an integer the server answers with an error, which the
  client catches. Both failure paths \<open>return 1\<close>.
\<close>

definition RedisClient_incr :: "int \<Rightarrow> redis_key \<Rightarrow> RedisClient \<Rightarrow> int \<times> RedisClient" where
  "RedisClient_incr now key rc =
     (if connection rc = Disconnected then (1, rc)
      else if connection rc = Failing then (1, rc)
      else (case live now (db rc key) of
              None \<Rightarrow> (1, rc\<lparr>db := (db rc)(key \<mapsto> (IntVal 1, None))\<rparr>)
            | Some (IntVal n, e) \<Rightarrow> (n + 1, rc\<lparr>db := (db rc)(key \<mapsto> (IntVal (n + 1), e))\<rparr>)
            | Some (_, e) \<Rightarrow> (1, rc)))"

definition RedisClient_expire :: "int \<Rightarrow> redis_key \<Rightarrow> nat \<Rightarrow> RedisClient \<Rightarrow> bool \<times> RedisClient" where
  "RedisClient_expire now key seconds rc =
     (if connection rc = Disconnected then (False, rc)
      else if connection rc = Failing then (False, rc)
      else (case live now (db rc key) of
              None \<Rightarrow> (True, rc)
            | Some (v, _) \<Rightarrow> (True, rc\<lparr>db := (db rc)(key \<mapsto> (v, Some (now + int seconds * 1000)))\<rparr>)))"

text \<open>
  The states of the client in a run of the service. With \<open>lazyConnect: true\<close> ioredis opens
  no connection, and emits no event, before a command is handed to it or
  \<open>client.connect()\<close> is called. No code of the service calls \<open>client.connect()\<close> (or the
  wrapper's \<open>disconnect\<close>, which would hand over \<open>QUIT\<close>), and each method of the wrapper
  hands its command over only past \<open>isAvailable()\<close>. \<open>isConnected\<close> is set by the handler of
  the \<open>connect\<close> event alone. The flag tells whether a command has been handed to ioredis
  (a method does so when \<open>isAvailable()\<close> holds); the last two rules are the events of a
  started client and the writes of other clients of the server.
\<close>

inductive service_client :: "bool \<Rightarrow> RedisClient \<Rightarrow> bool" where
  constructed: "service_client False (RedisClient_new keyspace)"
| got: "service_client started rc
    \<Longrightarrow> service_client (started \<or> connection rc = Connected) rc"
| set: "service_client started rc
    \<Longrightarrow> service_client (started \<or> connection rc = Connected)
          (snd (RedisClient_set now key val ttl rc))"
| incremented: "service_client started rc
    \<Longrightarrow> service_client (started \<or> connection rc = Connected)
          (snd (RedisClient_incr now key rc))"
| expired: "service_client started rc
    \<Longrightarrow> service_client (started \<or> connection rc = Connected)
          (snd (RedisClient_expire now key seconds rc))"
| event: "service_client True rc \<Longrightarrow> service_client True (rc\<lparr>connection := c\<rparr>)"
| elsewhere: "service_client started rc \<Longrightarrow> service_client started (rc\<lparr>db := keyspace\<rparr>)"

section \<open>Rate limiter\<close>

record Limit =
  limit_max :: int
  window :: nat

text \<open>\<open>this.limits\<close> as the constructor sets it.\<close>

definition limits :: "(string \<times> Limit) list" where
  "limits =
     [(''meteoblue'', \<lparr>limit_max = 200, window = 3600\<rparr>),
      (''aemet'', \<lparr>limit_max = 500, window = 3600\<rparr>),
      (''windy'', \<lparr>limit_max = 400, window = 3600\<rparr>),
      (''meteored'', \<lparr>limit_max = 300, window = 3600\<rparr>)]"

text \<open>
  \<open>checkRateLimit(apiName, userId)\<close>. The \<open>TTL\<close> read on the denied path only feeds the log
  line and changes nothing. No call inside the \<open>try\<close> throws, the client catching its own
  errors, so the \<open>catch\<close> branch is not reached.
\<close>

definition checkRateLimit :: "int \<Rightarrow> string \<Rightarrow> string \<Rightarrow> RedisClient \<Rightarrow> bool \<times> RedisClient" where
  "checkRateLimit now apiName userId rc =
     (let key = RateLimitKey apiName userId in
      case map_of limits apiName of
        None \<Rightarrow> (True, rc)
      | Some limit \<Rightarrow>
          (let (current, rc1) = RedisClient_incr now key rc;
               rc2 = (if current = 1 then snd (RedisClient_expire now key (window limit) rc1) else rc1)
           in if current > limit_max limit then (False, rc2) else (True, rc2)))"

text \<open>
  A run of consecutive checks for one API name and scope, at the given clock readings:
  the results in order and the store left behind.
\<close>

fun checkRateLimits :: "int list \<Rightarrow> string \<Rightarrow> string \<Rightarrow> RedisClient \<Rightarrow> bool list \<times> RedisClient" where
  "checkRateLimits [] apiName userId rc = ([], rc)"
| "checkRateLimits (now # later) apiName userId rc =
     (let r = checkRateLimit now apiName userId rc;
          more = checkRateLimits later apiName userId (snd r)
      in (fst r # fst more, snd more))"

text \<open>
  \<open>logApiCall(apiName, success)\<close> with \<open>responseTime = 0\<close>. A statistics key holds nothing
  but statistics; any other value is taken as one \<open>JSON.parse\<close> rejects, which the \<open>catch\<close>
  swallows before the write.
\<close>

definition logApiCall :: "int \<Rightarrow> string \<Rightarrow> bool \<Rightarrow> RedisClient \<Rightarrow> RedisClient" where
  "logApiCall now apiName success rc =
     (let key = ApiStatsKey apiName (now div 3600000);
          stats = \<lparr>calls = 1, successes = (if success then 1 else 0),
                   errors = (if success then 0 else 1),
                   totalResponseTime = 0, avgResponseTime = 0\<rparr>
      in case RedisClient_get now key rc of
           None \<Rightarrow> snd (RedisClient_setex now key 86400 (StatsVal stats) rc)
         | Some (StatsVal existingStats) \<Rightarrow>
             (let stats1 = \<lparr>calls = calls stats + calls existingStats,
                             successes = successes stats + successes existingStats,
                             errors = errors stats + errors existingStats,
                             totalResponseTime = totalResponseTime stats + totalResponseTime existingStats,
                             avgResponseTime =
                               (totalResponseTime stats + totalResponseTime existingStats)
                                 / real_of_int (calls stats + calls existingStats)\<rparr>
              in snd (RedisClient_setex now key 86400 (StatsVal stats1) rc))
         | Some _ \<Rightarrow> rc)"

section \<open>Acquisition controller\<close>

text \<open>
  What the process does not decide: which providers have an API key
  (\<open>provider.isAvailable()\<close>), and what \<open>provider.getWeatherForPoint(lat, lon, timestamp)\<close>
  gives at a wall-clock time, a record or a thrown error with its message. A \<open>Date\<close> is
  its epoch milliseconds, \<open>None\<close> for an invalid date.
\<close>

record Env =
  isAvailable :: "provider \<Rightarrow> bool"
  adapter :: "provider \<Rightarrow> real \<Rightarrow> real \<Rightarrow> int option \<Rightarrow> int \<Rightarrow> string + ProviderRecord"

text \<open>
  The state the requests share: the store, and the log of adapter invocations (provider,
  latitude, longitude, target time), kept to count them.
\<close>

record World =
  redis :: RedisClient
  adapter_calls :: "(provider \<times> real \<times> real \<times> int option) list"

definition providerPriority :: "provider list" where
  "providerPriority = [Meteoblue, Aemet, Windy, Meteored]"

definition cacheKey :: "provider \<Rightarrow> real \<Rightarrow> real \<Rightarrow> int option \<Rightarrow> redis_key" where
  "cacheKey providerName la lo ts =
     WeatherKey providerName (toFixed 3 la) (toFixed 3 lo) (map_option (\<lambda>t. t div 3600000) ts)"

text \<open>
  The body of \<open>for (const providerName of providerPriority)\<close>. \<open>now\<close> is the clock of the
  acquisition. A weather key holds nothing but a record; any other value is taken as one
  \<open>JSON.parse\<close> rejects, which lands in the \<open>catch\<close>.
\<close>

definition tryProvider ::
  "Env \<Rightarrow> int \<Rightarrow> real \<Rightarrow> real \<Rightarrow> int option \<Rightarrow> provider \<Rightarrow> World \<times> WeatherSource list \<Rightarrow> World \<times> WeatherSource list" where
  "tryProvider env now la lo ts providerName acc =
     (let w = fst acc; weatherSources = snd acc in
      if \<not> isAvailable env providerName then (w, weatherSources)
      else
        let key = cacheKey providerName la lo ts in
        case RedisClient_get now key (redis w) of
          Some (RecordVal d) \<Rightarrow>
            (w, weatherSources @ [\<lparr>WeatherSource.provider = providerName, data = d, cached = True\<rparr>])
        | Some _ \<Rightarrow>
            (w\<lparr>redis := logApiCall now (provider_name providerName) False (redis w)\<rparr>, weatherSources)
        | None \<Rightarrow>
            (let chk = checkRateLimit now (provider_name providerName) ''global'' (redis w);
                 canMakeRequest = fst chk; r1 = snd chk
             in if \<not> canMakeRequest then (w\<lparr>redis := r1\<rparr>, weatherSources)
                else
                  let called = adapter_calls w @ [(providerName, la, lo, ts)] in
                  case adapter env providerName la lo ts now of
                    Inl msg \<Rightarrow>
                      (\<lparr>redis = logApiCall now (provider_name providerName) False r1,
                        adapter_calls = called\<rparr>, weatherSources)
                  | Inr weatherData \<Rightarrow>
                      (let r2 = snd (RedisClient_setex now key 1800 (RecordVal weatherData) r1);
                           r3 = logApiCall now (provider_name providerName) True r2
                       in (\<lparr>redis = r3, adapter_calls = called\<rparr>,
                           weatherSources @
                             [\<lparr>WeatherSource.provider = providerName, data = weatherData,
                               cached = False\<rparr>]))))"

definition gatherSources :: "Env \<Rightarrow> int \<Rightarrow> real \<Rightarrow> real \<Rightarrow> int option \<Rightarrow> World \<Rightarrow> World \<times> WeatherSource list" where
  "gatherSources env now la lo ts w =
     foldl (\<lambda>acc providerName. tryProvider env now la lo ts providerName acc) (w, []) providerPriority"

text \<open>
  \<open>getWeatherForPoint(point, timestamp)\<close>: the thrown
  \<open>Error('No se pudieron obtener datos ... de ninguna fuente')\<close> is \<open>NoWeatherData\<close>.
\<close>

definition getWeatherForPoint ::
  "Env \<Rightarrow> int \<Rightarrow> real \<Rightarrow> real \<Rightarrow> int option \<Rightarrow> World \<Rightarrow> (js_error + FusedRecord) \<times> World" where
  "getWeatherForPoint env now la lo ts w =
     (let g = gatherSources env now la lo ts w; weatherSources = snd g in
      if length weatherSources = 0 then (Inl NoWeatherData, fst g)
      else (mergeWeatherData weatherSources, fst g))"

text \<open>
  \<open>new Date(x)\<close>: an invalid date when \<open>x\<close> is beyond 8.64e15 milliseconds either way,
  else \<open>x\<close> without its fraction, towards zero.
\<close>

definition TimeClip :: "real \<Rightarrow> int option" where
  "TimeClip x =
     (if \<bar>x\<bar> > 8640000000000000 then None
      else Some (if x \<ge> 0 then \<lfloor>x\<rfloor> else \<lceil>x\<rceil>))"

text \<open>\<open>new Date(now.getTime() + (waypoint.estimatedTimeFromStart || 0) * 60000)\<close>\<close>

definition estimatedTimeOf :: "int \<Rightarrow> Waypoint \<Rightarrow> int option" where
  "estimatedTimeOf now wp =
     TimeClip (binary64 (real_of_int now
       + binary64 ((if truthy (estimatedTimeFromStart wp) then ToNumber (estimatedTimeFromStart wp)
                    else 0) * 60000)))"

text \<open>
  \<open>getWeatherForWaypoints\<close>: the loop over the waypoints, each with its own \<open>try\<close>. \<open>now\<close> is
  read once, before the loop, and is the clock of every acquisition of the request.
  \<open>toISOString()\<close> of an invalid date throws a \<open>RangeError\<close>: in the \<open>try\<close> when the
  acquisition has returned, and again in the \<open>catch\<close>, which builds the same date; so the
  error leaves the loop, after the acquisition.
\<close>

fun getWeatherForWaypoints ::
  "Env \<Rightarrow> int \<Rightarrow> Waypoint list \<Rightarrow> World \<Rightarrow> (js_error + WeatherResult list) \<times> World" where
  "getWeatherForWaypoints env now [] w = (Inr [], w)"
| "getWeatherForWaypoints env now (wp # rest) w =
     (let estimatedTime = estimatedTimeOf now wp;
          r = getWeatherForPoint env now (lat wp) (lon wp) estimatedTime w
      in case estimatedTime of
           None \<Rightarrow> (Inl RangeError, snd r)
         | Some stamp \<Rightarrow>
             (let entry =
                    (case fst r of
                       Inr weatherData \<Rightarrow>
                         \<lparr>waypoint = wp, weather = Some weatherData, error = None,
                          WeatherResult.timestamp = stamp\<rparr>
                     | Inl e \<Rightarrow>
                         \<lparr>waypoint = wp, weather = None, error = Some e,
                          WeatherResult.timestamp = stamp\<rparr>);
                  more = getWeatherForWaypoints env now rest (snd r)
              in case fst more of
                   Inl e \<Rightarrow> (Inl e, snd more)
                 | Inr results \<Rightarrow> (Inr (entry # results), snd more)))"

section \<open>HTTP handlers\<close>

datatype 'a response = Status200 'a | Status400 | Status500 js_error

text \<open>
  \<open>req.body.waypoints\<close>: \<open>Absent\<close> is a falsy value (the key missing, \<open>null\<close>), \<open>NotAnArray\<close> a
  truthy value that is not an array.
\<close>

datatype waypoints_field = Absent | NotAnArray | WaypointArray "Waypoint list"

text \<open>
  The route response, without its \<open>summary\<close> and \<open>processedAt\<close> keys. An error thrown in the
  handler's \<open>try\<close> is answered 500.
\<close>

record RouteResponse =
  weatherData :: "WeatherResult list"
  risks :: "RiskAlert list"
  sources :: "provider list"

definition weather_for_route ::
  "Env \<Rightarrow> int \<Rightarrow> waypoints_field \<Rightarrow> World \<Rightarrow> RouteResponse response \<times> World" where
  "weather_for_route env now waypoints w =
     (case waypoints of
        Absent \<Rightarrow> (Status400, w)
      | NotAnArray \<Rightarrow> (Status400, w)
      | WaypointArray wps \<Rightarrow>
          if length wps = 0 then (Status400, w)
          else
            let r = getWeatherForWaypoints env now wps w
            in case fst r of
                 Inl e \<Rightarrow> (Status500 e, snd r)
               | Inr weatherResults \<Rightarrow>
                   (Status200 \<lparr>weatherData = weatherResults,
                               risks = identifyRisks weatherResults,
                               RouteResponse.sources = getUsedSources weatherResults\<rparr>,
                    snd r))"

text \<open>A value of the point request's body, as far as \<open>!lat\<close> and \<open>lat.toFixed\<close> tell values apart.\<close>

datatype json = JUndefined | JNull | JBool bool | JNum real | JStr string

fun json_truthy :: "json \<Rightarrow> bool" where
  "json_truthy JUndefined = False"
| "json_truthy JNull = False"
| "json_truthy (JBool b) = b"
| "json_truthy (JNum x) = (x \<noteq> 0)"
| "json_truthy (JStr s) = (s \<noteq> [])"

text \<open>
  \<open>req.body.timestamp\<close>: \<open>NoTimestamp\<close> is a falsy value, \<open>TimestampMs t\<close> a truthy one that
  \<open>new Date\<close> reads as the time \<open>t\<close>, \<open>InvalidTimestamp\<close> a truthy one that it reads as an
  invalid date.
\<close>

datatype timestamp_field = NoTimestamp | TimestampMs int | InvalidTimestamp

record PointResponse =
  weather :: FusedRecord
  location :: "real \<times> real"
  timestamp :: int

text \<open>
  \<open>POST /weather-for-point\<close>. With a truthy coordinate that is not a number,
  \<open>point.lat.toFixed\<close> (or \<open>point.lon.toFixed\<close>) throws a \<open>TypeError\<close> inside the \<open>try\<close> of every
  available provider's iteration: the call is logged as failed, no source is gathered
  and the acquisition throws. With an invalid date \<open>targetTimestamp.toISOString()\<close> throws
  a \<open>RangeError\<close> when the acquisition has returned.
\<close>

definition weather_for_point ::
  "Env \<Rightarrow> int \<Rightarrow> json \<Rightarrow> json \<Rightarrow> timestamp_field \<Rightarrow> World \<Rightarrow> PointResponse response \<times> World" where
  "weather_for_point env now la lo ts w =
     (if \<not> json_truthy la \<or> \<not> json_truthy lo then (Status400, w)
      else
        let targetTimestamp =
              (case ts of
                 NoTimestamp \<Rightarrow> Some now
               | TimestampMs t \<Rightarrow> Some t
               | InvalidTimestamp \<Rightarrow> None)
        in
        case (la, lo) of
          (JNum x, JNum y) \<Rightarrow>
            (let r = getWeatherForPoint env now x y targetTimestamp w in
             case fst r of
               Inr fused \<Rightarrow>
                 (case targetTimestamp of
                    None \<Rightarrow> (Status500 RangeError, snd r)
                  | Some stamp \<Rightarrow>
                      (Status200 \<lparr>PointResponse.weather = fused, location = (x, y),
                                  PointResponse.timestamp = stamp\<rparr>, snd r))
             | Inl e \<Rightarrow> (Status500 e, snd r))
        | _ \<Rightarrow>
            (Status500 NoWeatherData,
             foldl (\<lambda>w' providerName.
                      if isAvailable env providerName
                      then w'\<lparr>redis := logApiCall now (provider_name providerName) False (redis w')\<rparr>
                      else w')
               w providerPriority))"

section \<open>Provider adapters\<close>

text \<open>
  Each adapter's \<open>parseResponse(data, targetTimestamp)\<close>, the step of the fetch that turns
  the upstream body into a record or throws. A thrown error is modelled by its cause; the
  \<open>catch\<close> of \<open>parseResponse\<close> rethrows every one of them as
  \<open>Error('Error parsing ... data: ' + message)\<close>.
\<close>

datatype parse_error =
    InvalidFormat | MissingCriticalData | NoForecastData | InvalidStructure
  | ThrownTypeError | ThrownRangeError

text \<open>
  A JSON array of numbers read at an index: \<open>None\<close> for the array is the missing key, a
  \<open>None\<close> element is \<open>null\<close>, an index past the end reads \<open>undefined\<close>.
\<close>

definition getValueAtIndex :: "real option list option \<Rightarrow> nat \<Rightarrow> real option" where
  "getValueAtIndex array index =
     (case array of
        None \<Rightarrow> None
      | Some xs \<Rightarrow> if index < length xs then xs ! index else None)"

text \<open>
  The search for the time slot nearest to the target, from index \<open>i\<close> on:
  \<open>if (diff < minDiff) { minDiff = diff; closestIndex = i; }\<close>
\<close>

fun closestLoop :: "int \<Rightarrow> int list \<Rightarrow> nat \<Rightarrow> nat \<times> int \<Rightarrow> nat \<times> int" where
  "closestLoop target [] i best = best"
| "closestLoop target (t # ts) i best =
     (let diff = \<bar>t - target\<bar> in
      if diff < snd best then closestLoop target ts (i + 1) (i, diff)
      else closestLoop target ts (i + 1) best)"

subsection \<open>meteoblue\<close>

text \<open>\<open>data.data_1h\<close>; \<open>time\<close> holds ISO dates, modelled by their epoch milliseconds.\<close>

record Meteoblue1h =
  time :: "int list option"
  temperature :: "real option list option"
  windspeed :: "real option list option"
  winddirection :: "real option list option"
  precipitation :: "real option list option"
  relativehumidity :: "real option list option"
  sealevelpressure :: "real option list option"
  totalcloudcover :: "real option list option"
  visibility :: "real option list option"

definition MeteoblueProvider_calculateConfidence :: "int \<Rightarrow> real" where
  "MeteoblueProvider_calculateConfidence timeDifference =
     (let hoursOff = real_of_int timeDifference / (1000 * 60 * 60) in
      if hoursOff \<le> 1 then 0.95
      else if hoursOff \<le> 3 then 0.85
      else if hoursOff \<le> 6 then 0.75
      else if hoursOff \<le> 12 then 0.65
      else 0.50)"

text \<open>With an empty \<open>time\<close> array \<open>times[0].getTime()\<close> throws a \<open>TypeError\<close>.\<close>

definition MeteoblueProvider_parseResponse :: "Meteoblue1h option \<Rightarrow> int \<Rightarrow> parse_error + ProviderRecord" where
  "MeteoblueProvider_parseResponse data_1h targetTimestamp =
     (case data_1h of
        None \<Rightarrow> Inl InvalidFormat
      | Some d \<Rightarrow>
          (case time d of
             None \<Rightarrow> Inl InvalidFormat
           | Some [] \<Rightarrow> Inl ThrownTypeError
           | Some (t0 # later) \<Rightarrow>
               (let best = closestLoop targetTimestamp later 1 (0, \<bar>t0 - targetTimestamp\<bar>);
                    closestIndex = fst best; minDiff = snd best;
                    weatherData =
                      \<lparr>ProviderRecord.temperature = getValueAtIndex (Meteoblue1h.temperature d) closestIndex,
                       ProviderRecord.windSpeed = getValueAtIndex (windspeed d) closestIndex,
                       ProviderRecord.windDirection =
                         map_option Degrees (getValueAtIndex (winddirection d) closestIndex),
                       ProviderRecord.precipitation =
                         (let v = getValueAtIndex (Meteoblue1h.precipitation d) closestIndex
                          in if truthy v then v else Some 0),
                       ProviderRecord.humidity = getValueAtIndex (relativehumidity d) closestIndex,
                       ProviderRecord.pressure = getValueAtIndex (sealevelpressure d) closestIndex,
                       ProviderRecord.cloudCover = getValueAtIndex (totalcloudcover d) closestIndex,
                       ProviderRecord.visibility = getValueAtIndex (Meteoblue1h.visibility d) closestIndex,
                       ProviderRecord.timestamp = (t0 # later) ! closestIndex,
                       ProviderRecord.provider = Meteoblue,
                       ProviderRecord.confidence = MeteoblueProvider_calculateConfidence minDiff\<rparr>
                in if ProviderRecord.temperature weatherData = None
                      \<or> ProviderRecord.windSpeed weatherData = None
                   then Inl MissingCriticalData
                   else Inr weatherData)))"

subsection \<open>AEMET\<close>

text \<open>
  One day of the municipal forecast. A number is held as \<open>parseInt\<close> (\<open>parseFloat\<close> for the
  precipitation) reads it; \<open>None\<close> is the missing key.
\<close>

record AemetRange =
  maxima :: "int option"
  minima :: "int option"
  media :: "int option"

record AemetWind =
  velocidad :: "int option"
  direccion :: "string option"

record AemetDay =
  temperatura :: "AemetRange option"
  viento :: "AemetWind list option"
  precipitacion :: "real option list option"
  humedadRelativa :: "AemetRange option"
  estadoCielo :: "string option list option"

text \<open>\<open>forecastData[0].prediccion.dia\<close>: \<open>None\<close> when \<open>prediccion\<close> or \<open>dia\<close> is missing.\<close>

record AemetForecast =
  dia :: "AemetDay list option"

definition AemetProvider_extractTemperature :: "AemetRange option \<Rightarrow> real option" where
  "AemetProvider_extractTemperature tempData =
     (case tempData of
        None \<Rightarrow> None
      | Some t \<Rightarrow>
          (case maxima t of
             Some v \<Rightarrow> Some (real_of_int v)
           | None \<Rightarrow>
               (case minima t of
                  Some v \<Rightarrow> Some (real_of_int v)
                | None \<Rightarrow>
                    (case media t of
                       Some v \<Rightarrow> Some (real_of_int v)
                     | None \<Rightarrow> Some 20))))"

definition AemetProvider_extractWindSpeed :: "AemetWind list option \<Rightarrow> real option" where
  "AemetProvider_extractWindSpeed windData =
     (case windData of
        None \<Rightarrow> Some 10
      | Some [] \<Rightarrow> Some 10
      | Some (wind # _) \<Rightarrow>
          (case velocidad wind of
             Some v \<Rightarrow> Some (real_of_int v)
           | None \<Rightarrow> Some 10))"

text \<open>\<open>wind.direccion || 'Variable'\<close>: the empty string is falsy.\<close>

definition AemetProvider_extractWindDirection :: "AemetWind list option \<Rightarrow> wind_direction option" where
  "AemetProvider_extractWindDirection windData =
     (case windData of
        None \<Rightarrow> Some (Compass ''Variable'')
      | Some [] \<Rightarrow> Some (Compass ''Variable'')
      | Some (wind # _) \<Rightarrow>
          (case direccion wind of
             None \<Rightarrow> Some (Compass ''Variable'')
           | Some dir \<Rightarrow> if dir = [] then Some (Compass ''Variable'') else Some (Compass dir)))"

definition AemetProvider_extractPrecipitation :: "real option list option \<Rightarrow> real option" where
  "AemetProvider_extractPrecipitation precipData =
     (case precipData of
        None \<Rightarrow> Some 0
      | Some [] \<Rightarrow> Some 0
      | Some (precip # _) \<Rightarrow>
          (case precip of
             Some v \<Rightarrow> Some v
           | None \<Rightarrow> Some 0))"

definition AemetProvider_extractHumidity :: "AemetRange option \<Rightarrow> real option" where
  "AemetProvider_extractHumidity humidityData =
     (case humidityData of
        None \<Rightarrow> None
      | Some h \<Rightarrow>
          (case maxima h of
             Some v \<Rightarrow> Some (real_of_int v)
           | None \<Rightarrow>
               (case minima h of
                  Some v \<Rightarrow> Some (real_of_int v)
                | None \<Rightarrow> map_option real_of_int (media h))))"

text \<open>\<open>toLowerCase\<close> on the letters A to Z; a string is its bytes.\<close>

definition toLowerCase :: "string \<Rightarrow> string" where
  "toLowerCase str =
     map (\<lambda>c. let n = (of_char c :: nat) in if 65 \<le> n \<and> n \<le> 90 then char_of (n + 32) else c) str"

definition AemetProvider_extractCloudCover :: "string option list option \<Rightarrow> real option" where
  "AemetProvider_extractCloudCover skyData =
     (case skyData of
        None \<Rightarrow> None
      | Some [] \<Rightarrow> None
      | Some (sky # _) \<Rightarrow>
          (case sky of
             None \<Rightarrow> None
           | Some descripcion \<Rightarrow>
               if descripcion = [] then None
               else
                 let desc = toLowerCase descripcion in
                 if sublist ''despejado'' desc then Some 10
                 else if sublist ''poco nuboso'' desc then Some 25
                 else if sublist ''intervalos'' desc then Some 50
                 else if sublist ''nuboso'' desc then Some 75
                 else if sublist ''cubierto'' desc then Some 90
                 else Some 50))"

text \<open>\<open>forecastData\<close> is \<open>None\<close> when the body is not an array.\<close>

definition AemetProvider_parseResponse :: "AemetForecast list option \<Rightarrow> int \<Rightarrow> parse_error + ProviderRecord" where
  "AemetProvider_parseResponse forecastData targetTimestamp =
     (case forecastData of
        None \<Rightarrow> Inl NoForecastData
      | Some [] \<Rightarrow> Inl NoForecastData
      | Some (forecast # _) \<Rightarrow>
          (case dia forecast of
             None \<Rightarrow> Inl InvalidStructure
           | Some [] \<Rightarrow> Inl InvalidStructure
           | Some (today # _) \<Rightarrow>
               Inr \<lparr>ProviderRecord.temperature = AemetProvider_extractTemperature (temperatura today),
                    ProviderRecord.windSpeed = AemetProvider_extractWindSpeed (viento today),
                    ProviderRecord.windDirection = AemetProvider_extractWindDirection (viento today),
                    ProviderRecord.precipitation = AemetProvider_extractPrecipitation (precipitacion today),
                    ProviderRecord.humidity = AemetProvider_extractHumidity (humedadRelativa today),
                    ProviderRecord.pressure = None,
                    ProviderRecord.cloudCover = AemetProvider_extractCloudCover (estadoCielo today),
                    ProviderRecord.visibility = None,
                    ProviderRecord.timestamp = targetTimestamp,
                    ProviderRecord.provider = Aemet,
                    ProviderRecord.confidence = 0.80\<rparr>))"

subsection \<open>Windy\<close>

text \<open>
  The body of the point forecast: \<open>ts\<close> (epoch milliseconds) and one array per
  \<open>${parameter}-surface\<close> key. \<open>None\<close> is a missing key or a value that is not an array.
\<close>

record WindyData =
  ts :: "int list option"
  temp_surface :: "real option list option"
  wind_u_surface :: "real option list option"
  wind_v_surface :: "real option list option"
  precip_surface :: "real option list option"
  rh_surface :: "real option list option"
  pressure_surface :: "real option list option"
  cloudcover_surface :: "real option list option"

definition WindyProvider_getParameterValue :: "real option list option \<Rightarrow> nat \<Rightarrow> real option" where
  "WindyProvider_getParameterValue paramData index =
     (case paramData of
        None \<Rightarrow> None
      | Some xs \<Rightarrow> if index < length xs then xs ! index else None)"

definition WindyProvider_calculateWindSpeed :: "WindyData \<Rightarrow> nat \<Rightarrow> real option" where
  "WindyProvider_calculateWindSpeed d index =
     (let windU = WindyProvider_getParameterValue (wind_u_surface d) index;
          windV = WindyProvider_getParameterValue (wind_v_surface d) index
      in case (windU, windV) of
           (Some u, Some v) \<Rightarrow> Some (real_of_int (Math_round (sqrt (u * u + v * v) * 3.6)))
         | _ \<Rightarrow> None)"

definition WindyProvider_calculateConfidence :: "int \<Rightarrow> real" where
  "WindyProvider_calculateConfidence timeDifference =
     (let hoursOff = real_of_int timeDifference / (1000 * 60 * 60) in
      if hoursOff \<le> 1 then 0.90
      else if hoursOff \<le> 3 then 0.80
      else if hoursOff \<le> 6 then 0.70
      else if hoursOff \<le> 12 then 0.60
      else 0.45)"

text \<open>
  With an empty \<open>ts\<close> array \<open>new Date(data.ts[0]).toISOString()\<close> throws a \<open>RangeError\<close>. No
  field is checked before the record is returned.
\<close>

definition WindyProvider_parseResponse :: "WindyData \<Rightarrow> int \<Rightarrow> parse_error + ProviderRecord" where
  "WindyProvider_parseResponse d targetTimestamp =
     (case ts d of
        None \<Rightarrow> Inl InvalidFormat
      | Some [] \<Rightarrow> Inl ThrownRangeError
      | Some (t0 # later) \<Rightarrow>
          (let best = closestLoop targetTimestamp later 1 (0, \<bar>t0 - targetTimestamp\<bar>);
               closestIndex = fst best; minDiff = snd best;
               precip = WindyProvider_getParameterValue (precip_surface d) closestIndex
           in Inr \<lparr>ProviderRecord.temperature = WindyProvider_getParameterValue (temp_surface d) closestIndex,
                   ProviderRecord.windSpeed = WindyProvider_calculateWindSpeed d closestIndex,
                   ProviderRecord.windDirection =
                     map_option Degrees (WindyProvider_getParameterValue (wind_u_surface d) closestIndex),
                   ProviderRecord.precipitation = (if truthy precip then precip else Some 0),
                   ProviderRecord.humidity = WindyProvider_getParameterValue (rh_surface d) closestIndex,
                   ProviderRecord.pressure = WindyProvider_getParameterValue (pressure_surface d) closestIndex,
                   ProviderRecord.cloudCover = WindyProvider_getParameterValue (cloudcover_surface d) closestIndex,
                   ProviderRecord.visibility = None,
                   ProviderRecord.timestamp = (t0 # later) ! closestIndex,
                   ProviderRecord.provider = Windy,
                   ProviderRecord.confidence = WindyProvider_calculateConfidence minDiff\<rparr>))"

subsection \<open>Meteored\<close>

text \<open>
  One element of \<open>data.weather.forecast\<close>. \<open>date\<close> is the epoch milliseconds of the date
  string; a numeric field is held as \<open>parseFloat\<close> reads it, \<open>None\<close> being the missing key.
\<close>

record MeteoredTemperature =
  temperature_max :: real
  temperature_min :: real

record MeteoredWind =
  speed :: "real option"
  direction :: "string option"

record MeteoredForecast =
  date :: int
  temperature :: "MeteoredTemperature option"
  temp :: "real option"
  wind :: "MeteoredWind option"
  precipitation :: "real option"
  rain :: "real option"
  humidity :: "real option"
  pressure :: "real option"
  cloudiness :: "real option"
  clouds :: "real option"

definition MeteoredProvider_extractTemperature :: "MeteoredForecast \<Rightarrow> real option" where
  "MeteoredProvider_extractTemperature forecast =
     (case MeteoredForecast.temperature forecast of
        Some t \<Rightarrow> Some (real_of_int (Math_round ((temperature_max t + temperature_min t) / 2)))
      | None \<Rightarrow>
          if truthy (temp forecast) then Some (real_of_int (Math_round (ToNumber (temp forecast))))
          else None)"

definition MeteoredProvider_extractWindSpeed :: "MeteoredForecast \<Rightarrow> real option" where
  "MeteoredProvider_extractWindSpeed forecast =
     (case wind forecast of
        None \<Rightarrow> None
      | Some wd \<Rightarrow>
          if truthy (speed wd) then Some (real_of_int (Math_round (ToNumber (speed wd)))) else None)"

definition MeteoredProvider_extractWindDirection :: "MeteoredForecast \<Rightarrow> wind_direction option" where
  "MeteoredProvider_extractWindDirection forecast =
     (case wind forecast of
        None \<Rightarrow> Some (Compass ''Variable'')
      | Some wd \<Rightarrow>
          (case direction wd of
             None \<Rightarrow> Some (Compass ''Variable'')
           | Some dir \<Rightarrow> if dir = [] then Some (Compass ''Variable'') else Some (Compass dir)))"

definition MeteoredProvider_extractPrecipitation :: "MeteoredForecast \<Rightarrow> real option" where
  "MeteoredProvider_extractPrecipitation forecast =
     (if truthy (MeteoredForecast.precipitation forecast) then MeteoredForecast.precipitation forecast
      else if truthy (rain forecast) then rain forecast
      else Some 0)"

definition MeteoredProvider_extractHumidity :: "MeteoredForecast \<Rightarrow> real option" where
  "MeteoredProvider_extractHumidity forecast =
     (if truthy (MeteoredForecast.humidity forecast)
      then Some (real_of_int (Math_round (ToNumber (MeteoredForecast.humidity forecast))))
      else None)"

definition MeteoredProvider_extractPressure :: "MeteoredForecast \<Rightarrow> real option" where
  "MeteoredProvider_extractPressure forecast =
     (if truthy (MeteoredForecast.pressure forecast)
      then Some (real_of_int (Math_round (ToNumber (MeteoredForecast.pressure forecast))))
      else None)"

definition MeteoredProvider_extractCloudCover :: "MeteoredForecast \<Rightarrow> real option" where
  "MeteoredProvider_extractCloudCover forecast =
     (if truthy (cloudiness forecast)
      then Some (real_of_int (Math_round (ToNumber (cloudiness forecast))))
      else if truthy (clouds forecast)
      then Some (real_of_int (Math_round (ToNumber (clouds forecast))))
      else None)"

definition MeteoredProvider_calculateConfidence :: "int \<Rightarrow> real" where
  "MeteoredProvider_calculateConfidence timeDifference =
     (let hoursOff = real_of_int timeDifference / (1000 * 60 * 60) in
      if hoursOff \<le> 2 then 0.75
      else if hoursOff \<le> 6 then 0.65
      else if hoursOff \<le> 12 then 0.55
      else if hoursOff \<le> 24 then 0.45
      else 0.35)"

text \<open>\<open>for (const forecast of forecasts)\<close>, keeping the forecast nearest to the target.\<close>

fun closestForecastLoop :: "int \<Rightarrow> MeteoredForecast list \<Rightarrow> MeteoredForecast \<times> int \<Rightarrow> MeteoredForecast \<times> int" where
  "closestForecastLoop target [] best = best"
| "closestForecastLoop target (forecast # rest) best =
     (let diff = \<bar>date forecast - target\<bar> in
      if diff < snd best then closestForecastLoop target rest (forecast, diff)
      else closestForecastLoop target rest best)"

text \<open>
  \<open>forecasts\<close> is \<open>None\<close> when \<open>data.weather\<close> is missing or \<open>forecast\<close> is not an array; with an
  empty array \<open>forecasts[0].date\<close> throws a \<open>TypeError\<close>. No field is checked before the
  record is returned.
\<close>

definition MeteoredProvider_parseResponse :: "MeteoredForecast list option \<Rightarrow> int \<Rightarrow> parse_error + ProviderRecord" where
  "MeteoredProvider_parseResponse forecasts targetTimestamp =
     (case forecasts of
        None \<Rightarrow> Inl InvalidFormat
      | Some [] \<Rightarrow> Inl ThrownTypeError
      | Some (f0 # rest) \<Rightarrow>
          (let best = closestForecastLoop targetTimestamp (f0 # rest) (f0, \<bar>date f0 - targetTimestamp\<bar>);
               closestForecast = fst best; minDiff = snd best
           in Inr \<lparr>ProviderRecord.temperature = MeteoredProvider_extractTemperature closestForecast,
                   ProviderRecord.windSpeed = MeteoredProvider_extractWindSpeed closestForecast,
                   ProviderRecord.windDirection = MeteoredProvider_extractWindDirection closestForecast,
                   ProviderRecord.precipitation = MeteoredProvider_extractPrecipitation closestForecast,
                   ProviderRecord.humidity = MeteoredProvider_extractHumidity closestForecast,
                   ProviderRecord.pressure = MeteoredProvider_extractPressure closestForecast,
                   ProviderRecord.cloudCover = MeteoredProvider_extractCloudCover closestForecast,
                   ProviderRecord.visibility = None,
                   ProviderRecord.timestamp = targetTimestamp,
                   ProviderRecord.provider = Meteored,
                   ProviderRecord.confidence = MeteoredProvider_calculateConfidence minDiff\<rparr>))"

section \<open>Example inputs\<close>

text \<open>
  A provider record with the given provider, temperature, wind speed and confidence, no
  precipitation and the optional fields \<open>null\<close>, and the source entry that carries it.
\<close>

definition ex_rec :: "provider \<Rightarrow> real \<Rightarrow> real \<Rightarrow> real \<Rightarrow> ProviderRecord" where
  "ex_rec p t ws c =
     \<lparr>ProviderRecord.temperature = Some t, ProviderRecord.windSpeed = Some ws,
      ProviderRecord.windDirection = None, ProviderRecord.precipitation = Some 0,
      ProviderRecord.humidity = None, ProviderRecord.pressure = None,
      ProviderRecord.cloudCover = None, ProviderRecord.visibility = None,
      ProviderRecord.timestamp = 0, ProviderRecord.provider = p,
      ProviderRecord.confidence = c\<rparr>"

definition ex_src :: "provider \<Rightarrow> real \<Rightarrow> real \<Rightarrow> real \<Rightarrow> WeatherSource" where
  "ex_src p t ws c = \<lparr>WeatherSource.provider = p, data = ex_rec p t ws c, cached = False\<rparr>"

text \<open>
  A store that is down, and the service as it starts: the client as its constructor
  leaves it, in front of a healthy server with an empty keyspace, and no adapter invoked.
\<close>

definition store_down :: RedisClient where
  "store_down = \<lparr>connection = Disconnected, db = Map.empty\<rparr>"

definition world_new :: World where
  "world_new = \<lparr>redis = RedisClient_new Map.empty, adapter_calls = []\<rparr>"

text \<open>
  An environment with no API key at all, and one where only meteoblue has a key and its
  adapter answers south of latitude 41 and times out north of it.
\<close>

definition env_none :: Env where
  "env_none = \<lparr>isAvailable = (\<lambda>p. False), adapter = (\<lambda>p la lo t now. Inl ''not configured'')\<rparr>"

definition env_meteoblue :: Env where
  "env_meteoblue =
     \<lparr>isAvailable = (\<lambda>p. p = Meteoblue),
      adapter = (\<lambda>p la lo t now.
        if la < 41 then Inr (ex_rec p 18 20 0.95) else Inl ''meteoblue API timeout'')\<rparr>"

text \<open>Two coordinates in the same cell of three decimals, and two waypoints.\<close>

definition ex_lat :: real where "ex_lat = 40.4168"

definition ex_lat_near :: real where "ex_lat_near = 40.41684"

definition ex_lon :: real where "ex_lon = -3.7038"

definition wp_north :: Waypoint where
  "wp_north = \<lparr>lat = 42, lon = -3.7, estimatedTimeFromStart = None\<rparr>"

definition wp_south :: Waypoint where
  "wp_south = \<lparr>lat = 40, lon = -3.7, estimatedTimeFromStart = Some 30\<rparr>"

text \<open>A waypoint 1e15 minutes from the start: its estimated time is beyond the last date.\<close>

definition wp_far :: Waypoint where
  "wp_far = \<lparr>lat = 42, lon = -3.7, estimatedTimeFromStart = Some 1000000000000000\<rparr>"

text \<open>The double next below 3, which prints as 2.9999999999999996.\<close>

definition ex_below_three :: real where "ex_below_three = 3 - 1 / 2 ^ 51"

text \<open>A route result whose fused record has the given visibility and no other hazard.\<close>

definition ex_result :: "real option \<Rightarrow> WeatherResult" where
  "ex_result vis =
     \<lparr>waypoint = \<lparr>lat = 40.4, lon = -3.7, estimatedTimeFromStart = None\<rparr>,
      weather = Some
        \<lparr>FusedRecord.temperature = Some 10, FusedRecord.windSpeed = Some 5,
         FusedRecord.windDirection = None, FusedRecord.precipitation = Some 0,
         FusedRecord.humidity = None, FusedRecord.pressure = None,
         FusedRecord.cloudCover = None, FusedRecord.visibility = vis,
         FusedRecord.sources = [Meteoblue], primary = Meteoblue,
         FusedRecord.confidence = 0.95, warnings = [],
         FusedRecord.timestamp = Some 0, FusedRecord.provider = Some Meteoblue\<rparr>,
      error = None, WeatherResult.timestamp = 0\<rparr>"

text \<open>
  Upstream bodies: an AEMET day and a Windy forecast with no field but the time, and a
  meteoblue series with wind and no temperature.
\<close>

definition ex_aemet_day :: AemetDay where
  "ex_aemet_day =
     \<lparr>temperatura = None, viento = None, precipitacion = None, humedadRelativa = None,
      estadoCielo = None\<rparr>"

definition ex_windy :: WindyData where
  "ex_windy =
     \<lparr>ts = Some [0], temp_surface = None, wind_u_surface = None, wind_v_surface = None,
      precip_surface = None, rh_surface = None, pressure_surface = None,
      cloudcover_surface = None\<rparr>"

definition ex_meteoblue :: Meteoblue1h where
  "ex_meteoblue =
     \<lparr>time = Some [0, 3600000], Meteoblue1h.temperature = None,
      windspeed = Some [Some 12, Some 14], winddirection = None,
      Meteoblue1h.precipitation = None, relativehumidity = None, sealevelpressure = None,
      totalcloudcover = None, Meteoblue1h.visibility = None\<rparr>"

section \<open>Properties of the arithmetic\<close>

text \<open>
  The exponent found from the logarithm is the one between two powers of 2, rounding is
  monotone at an integer, and so the rounded result of an operation stays on the side of
  an integer threshold where the exact result is.
\<close>

lemma pow2_powr: "pow2 e = 2 powr (of_int e)"
  by (simp add: pow2_def powr_real_of_int field_simps)

lemma pow2_pos: "0 < pow2 e"
  by (simp add: pow2_def)

lemma round_ties_even_le: "q \<le> of_int K \<Longrightarrow> round_ties_even q \<le> K"
proof -
  assume a: "q \<le> of_int K"
  have f: "\<lfloor>q\<rfloor> \<le> K" using a by (simp add: floor_le_iff) 
  have "q - of_int \<lfloor>q\<rfloor> > 0 \<Longrightarrow> \<lfloor>q\<rfloor> + 1 \<le> K"
  proof -
    assume "q - of_int \<lfloor>q\<rfloor> > 0"
    then have "of_int \<lfloor>q\<rfloor> < q" by simp
    with a have "of_int \<lfloor>q\<rfloor> < (of_int K :: real)" by linarith
    then show ?thesis by simp
  qed
  with f show ?thesis
    by (auto simp: round_ties_even_def Let_def)
qed

lemma round_ties_even_int: "round_ties_even (of_int n) = n"
  by (simp add: round_ties_even_def)

lemma binary64_eval:
  assumes "pow2 k \<le> \<bar>x\<bar>" and "\<bar>x\<bar> < pow2 (k + 1)" and "- 1022 \<le> k"
  shows "binary64 x = of_int (round_ties_even (x / pow2 (k - 52))) * pow2 (k - 52)"
proof -
  have pos: "0 < \<bar>x\<bar>" using assms(1) pow2_pos [of k] by linarith
  then have nz: "x \<noteq> 0" by auto
  have "\<lfloor>log 2 \<bar>x\<bar>\<rfloor> = k"
    using assms(1,2) pos by (subst floor_log_eq_powr_iff) (simp_all add: pow2_powr)
  with nz assms(3) show ?thesis
    by (simp add: binary64_def Let_def max_def)
qed

lemma binary64_le_int:
  assumes "x \<le> of_int N" and "1 \<le> N" and "N \<le> 2 ^ 52"
  shows "binary64 x \<le> of_int N"
proof (cases "x \<le> 0")
  case True
  show ?thesis
  proof (cases "x = 0")
    case True
    with assms(2) show ?thesis by (simp add: binary64_def)
  next
    case False
    define ulp where "ulp = pow2 (max \<lfloor>log 2 \<bar>x\<bar>\<rfloor> (- 1022) - 52)"
    have up: "0 < ulp" by (simp add: ulp_def pow2_pos)
    from False True have "x / ulp \<le> of_int 0" using up by (simp add: divide_nonpos_pos)
    then have "round_ties_even (x / ulp) \<le> 0" by (rule round_ties_even_le)
    then have "of_int (round_ties_even (x / ulp)) * ulp \<le> 0"
      using up by (simp add: mult_nonpos_nonneg)
    with False assms(2) show ?thesis
      by (simp add: binary64_def Let_def ulp_def [symmetric])
  qed
next
  case False
  then have xpos: "0 < x" by simp
  define e where "e = max \<lfloor>log 2 \<bar>x\<bar>\<rfloor> (- 1022)"
  have "x \<le> 2 ^ 52" using assms(1,3)
    by (metis (mono_tags, opaque_lifting) of_int_le_iff of_int_numeral of_int_power order_trans)
  then have "x < 2 powr 53" using xpos by (simp add: powr_realpow [symmetric])
  then have "log 2 x < 53" using xpos by (simp add: log_less_iff)
  then have "\<lfloor>log 2 \<bar>x\<bar>\<rfloor> \<le> 52" using xpos by (simp add: floor_le_iff)
  then have e52: "e \<le> 52" by (simp add: e_def)
  define n where "n = nat (52 - e)"
  have ulp: "pow2 (e - 52) = 1 / 2 ^ n"
    using e52 by (cases "e = 52") (simp_all add: pow2_def n_def)
  have "x / pow2 (e - 52) = x * 2 ^ n" by (simp add: ulp)
  also have "\<dots> \<le> of_int N * 2 ^ n" using assms(1) by simp
  also have "\<dots> = of_int (N * 2 ^ n)" by simp
  finally have "round_ties_even (x / pow2 (e - 52)) \<le> N * 2 ^ n"
    by (rule round_ties_even_le)
  then have "(of_int (round_ties_even (x / pow2 (e - 52))) :: real) \<le> of_int (N * 2 ^ n)"
    by (simp only: of_int_le_iff)
  then have "of_int (round_ties_even (x / pow2 (e - 52))) * pow2 (e - 52) \<le> of_int N"
    by (simp add: ulp field_simps)
  with xpos show ?thesis
    unfolding e_def by (simp add: binary64_def Let_def)
qed

lemma round_ties_even_ge: "of_int K \<le> q \<Longrightarrow> K \<le> round_ties_even q"
proof -
  assume a: "of_int K \<le> q"
  then have "K \<le> \<lfloor>q\<rfloor>" by (simp add: le_floor_iff)
  then show ?thesis by (auto simp: round_ties_even_def Let_def)
qed

lemma round_ties_even_above_half: "of_int K + 1 / 2 < q \<Longrightarrow> K + 1 \<le> round_ties_even q"
proof -
  assume a: "of_int K + 1 / 2 < q"
  then have f: "K \<le> \<lfloor>q\<rfloor>" by (simp add: le_floor_iff)
  show ?thesis
  proof (cases "K = \<lfloor>q\<rfloor>")
    case True
    with a have "q - of_int \<lfloor>q\<rfloor> > 1 / 2" by simp
    with True show ?thesis by (simp add: round_ties_even_def Let_def)
  next
    case False
    with f have "K + 1 \<le> \<lfloor>q\<rfloor>" by simp
    then show ?thesis by (auto simp: round_ties_even_def Let_def)
  qed
qed

lemma pow2_mono: "a \<le> b \<Longrightarrow> pow2 a \<le> pow2 b"
  by (simp add: pow2_powr)

lemma pow2_diff: "pow2 a / pow2 b = pow2 (a - b)"
  by (simp add: pow2_powr powr_diff)

lemma binary64_ge_pow2:
  assumes "pow2 k \<le> x" and "- 1022 \<le> k"
  shows "pow2 k \<le> binary64 x"
proof -
  have xpos: "0 < x" using assms(1) pow2_pos [of k] by linarith
  define e where "e = \<lfloor>log 2 x\<rfloor>"
  have "of_int k \<le> log 2 x"
    using assms(1) xpos by (simp add: le_log_iff pow2_powr)
  then have ke: "k \<le> e" by (simp add: e_def le_floor_iff)
  have "\<lfloor>log 2 x\<rfloor> = e" by (simp add: e_def)
  then have ex: "pow2 e \<le> x"
    using xpos by (subst (asm) floor_log_eq_powr_iff) (simp_all add: pow2_powr)
  have up: "0 < pow2 (e - 52)" by (rule pow2_pos)
  have "of_int (2 ^ 52) = pow2 e / pow2 (e - 52)"
    by (simp add: pow2_diff) (simp add: pow2_def)
  also have "\<dots> \<le> x / pow2 (e - 52)"
    using ex up by (simp add: divide_right_mono)
  finally have "2 ^ 52 \<le> round_ties_even (x / pow2 (e - 52))"
    by (rule round_ties_even_ge)
  then have "(of_int (2 ^ 52) :: real) \<le> of_int (round_ties_even (x / pow2 (e - 52)))"
    by (simp only: of_int_le_iff)
  then have "of_int (2 ^ 52) * pow2 (e - 52) \<le> of_int (round_ties_even (x / pow2 (e - 52))) * pow2 (e - 52)"
    using up by (simp only: mult_le_cancel_right_pos)
  moreover have "of_int (2 ^ 52) * pow2 (e - 52) = pow2 e"
    using pow2_diff [of e "e - 52"] up by (simp add: pow2_def field_simps)
  ultimately have "pow2 e \<le> of_int (round_ties_even (x / pow2 (e - 52))) * pow2 (e - 52)"
    by simp
  moreover have "pow2 k \<le> pow2 e" using ke by (rule pow2_mono)
  moreover have "binary64 x = of_int (round_ties_even (x / pow2 (e - 52))) * pow2 (e - 52)"
  proof -
    have "- 1022 \<le> e" using ke assms(2) by linarith
    then have "max e (- 1022) = e" by (rule max_absorb1)
    then have "max \<lfloor>log 2 x\<rfloor> (- 1022) = \<lfloor>log 2 x\<rfloor>" by (simp only: e_def)
    with xpos show ?thesis by (simp add: binary64_def Let_def e_def)
  qed
  ultimately show ?thesis by linarith
qed

lemma binary64_above_5:
  assumes "5 + 1 / 2 ^ 51 < x"
  shows "5 < binary64 x"
proof (cases "x < 8")
  case True
  define r where "r = round_ties_even (x / pow2 (2 - 52))"
  have b: "binary64 x = of_int r * pow2 (2 - 52)"
    unfolding r_def using assms True by (intro binary64_eval) (simp_all add: pow2_def)
  have p: "pow2 (2 - 52) = 1 / 2 ^ 50" by (simp add: pow2_def)
  have "of_int (5 * 2 ^ 50) + 1 / 2 < x / pow2 (2 - 52)"
    unfolding p using assms by (simp add: field_simps)
  then have "5 * 2 ^ 50 + 1 \<le> r"
    unfolding r_def by (rule round_ties_even_above_half)
  then have "(of_int (5 * 2 ^ 50 + 1) :: real) \<le> of_int r"
    by (simp only: of_int_le_iff)
  then have "5 < of_int r * (1 / 2 ^ 50 :: real)"
    by (simp add: field_simps)
  then show ?thesis by (simp only: b p)
next
  case False
  then have "pow2 3 \<le> x" by (simp add: pow2_def)
  then have "pow2 3 \<le> binary64 x" by (rule binary64_ge_pow2) simp
  then show ?thesis by (simp add: pow2_def)
qed

text \<open>The doubles of the examples.\<close>

lemma binary64_examples:
  "binary64 0 = 0"
  "binary64 (30 * 60000) = 1800000"
  "binary64 1800000 = 1800000"
  "binary64 (1000000000000000 * 60000) = 60000000000000000000"
  "binary64 60000000000000000000 = 60000000000000000000"
  "binary64 (8 - ex_below_three) = 5"
proof -
  show "binary64 0 = 0" by (simp add: binary64_def)
  show "binary64 (30 * 60000) = 1800000"
    by (subst binary64_eval [where k = 20]) (simp_all add: pow2_def round_ties_even_def)
  show "binary64 1800000 = 1800000"
    by (subst binary64_eval [where k = 20]) (simp_all add: pow2_def round_ties_even_def)
  show "binary64 (1000000000000000 * 60000) = 60000000000000000000"
    by (subst binary64_eval [where k = 65]) (simp_all add: pow2_def round_ties_even_def)
  show "binary64 60000000000000000000 = 60000000000000000000"
    by (subst binary64_eval [where k = 65]) (simp_all add: pow2_def round_ties_even_def)
  show "binary64 (8 - ex_below_three) = 5"
    by (subst binary64_eval [where k = 2])
       (simp_all add: pow2_def round_ties_even_def ex_below_three_def)
qed

section \<open>Properties of the fusion engine\<close>

lemma priority_inj: "priority a = priority b \<Longrightarrow> a = b"
  by (cases a; cases b; simp)

lemma sortSources_set: "set (sortSources srcs) = set srcs"
  by (simp add: sortSources_def)

lemma sortSources_mset: "mset (sortSources srcs) = mset srcs"
  by (simp add: sortSources_def)

lemma sortSources_length: "length (sortSources srcs) = length srcs"
  by (simp add: sortSources_def)

lemma sortSources_Cons_ex: "srcs \<noteq> [] \<Longrightarrow> \<exists>s0 rest. sortSources srcs = s0 # rest"
  using sortSources_length [of srcs] by (cases "sortSources srcs") auto

lemma sortSources_hd_max:
  assumes "sortSources srcs = s0 # rest" and "s \<in> set srcs"
  shows "priority (WeatherSource.provider s) \<le> priority (WeatherSource.provider s0)"
proof -
  have "sorted (map (\<lambda>s. - priority (WeatherSource.provider s)) (sortSources srcs))"
    unfolding sortSources_def by (rule sorted_sort_key)
  with assms(1) have "\<forall>y\<in>set rest. - priority (WeatherSource.provider s0) \<le> - priority (WeatherSource.provider y)"
    by simp
  moreover from assms have "s = s0 \<or> s \<in> set rest"
    using sortSources_set [of srcs] by auto
  ultimately show ?thesis by auto
qed

lemma sortSources_hd_in:
  assumes "sortSources srcs = s0 # rest"
  shows "s0 \<in> set srcs"
  using assms sortSources_set [of srcs] by auto

lemma detect_eq:
  "detectWeatherInconsistencies m srcs =
     m\<lparr>warnings :=
        (if length srcs < 2 then warnings m
         else warnings m
           @ (case range_of (temperatures_of srcs) of
                None \<Rightarrow> []
              | Some r \<Rightarrow> if r > 5 then [TemperatureVariation (toFixed 1 r)] else [])
           @ (case range_of (windSpeeds_of srcs) of
                None \<Rightarrow> []
              | Some r \<Rightarrow> if r > 15 then [WindVariation (toFixed 1 r)] else []))\<rparr>"
  by (simp add: detectWeatherInconsistencies_def Let_def split: option.splits)

lemma mergeWeatherData_Cons:
  assumes "sortSources srcs = s0 # rest"
  shows "\<exists>m. mergeWeatherData srcs = Inr m
           \<and> primary m = WeatherSource.provider s0
           \<and> FusedRecord.sources m = map WeatherSource.provider (s0 # rest)
           \<and> FusedRecord.temperature m = ProviderRecord.temperature (data s0)
           \<and> FusedRecord.windSpeed m = ProviderRecord.windSpeed (data s0)
           \<and> FusedRecord.windDirection m = ProviderRecord.windDirection (data s0)
           \<and> FusedRecord.precipitation m = ProviderRecord.precipitation (data s0)
           \<and> FusedRecord.humidity m = ProviderRecord.humidity (data s0)
           \<and> FusedRecord.pressure m = ProviderRecord.pressure (data s0)
           \<and> FusedRecord.cloudCover m = ProviderRecord.cloudCover (data s0)
           \<and> FusedRecord.visibility m = ProviderRecord.visibility (data s0)
           \<and> FusedRecord.timestamp m = Some (ProviderRecord.timestamp (data s0))
           \<and> FusedRecord.provider m = Some (ProviderRecord.provider (data s0))
           \<and> FusedRecord.confidence m = ProviderRecord.confidence (data s0)
           \<and> warnings m =
               (if rest = [] then []
                else (case range_of (temperatures_of (s0 # rest)) of
                        None \<Rightarrow> []
                      | Some r \<Rightarrow> if r > 5 then [TemperatureVariation (toFixed 1 r)] else [])
                   @ (case range_of (windSpeeds_of (s0 # rest)) of
                        None \<Rightarrow> []
                      | Some r \<Rightarrow> if r > 15 then [WindVariation (toFixed 1 r)] else []))"
proof (cases "rest = []")
  case True
  with assms show ?thesis
    by (simp add: mergeWeatherData_def Let_def Object_assign_def)
next
  case False
  then have len: "length rest > 0" "\<not> Suc (length rest) < 2"
    by (cases rest; simp)+
  show ?thesis
    using assms False len
    by (simp add: mergeWeatherData_def Let_def detect_eq Object_assign_def del: range_of.simps)
qed

lemma range_of_spread:
  assumes "length xs \<ge> 2"
  shows "range_of xs = Some (binary64 (Max (set xs) - Min (set xs)))"
proof -
  from assms obtain x y ys where xs: "xs = x # y # ys"
    by (cases xs; cases "tl xs"; auto)
  show ?thesis
    unfolding xs range_of.simps Max.set_eq_fold Min.set_eq_fold ..
qed

lemma range_of_short: "length xs < 2 \<Longrightarrow> range_of xs = None"
  by (cases xs; cases "tl xs"; auto)

lemma map_filter_mset:
  "mset xs = mset ys \<Longrightarrow> mset (List.map_filter f xs) = mset (List.map_filter f ys)"
  by (metis List.map_filter_def mset_filter mset_map)

lemma temperatures_of_sorted:
  "mset (temperatures_of (sortSources srcs)) = mset (temperatures_of srcs)"
  unfolding temperatures_of_def by (rule map_filter_mset) (rule sortSources_mset)

lemma windSpeeds_of_sorted:
  "mset (windSpeeds_of (sortSources srcs)) = mset (windSpeeds_of srcs)"
  unfolding windSpeeds_of_def by (rule map_filter_mset) (rule sortSources_mset)

lemma mset_eq_set_length: "mset xs = mset ys \<Longrightarrow> set xs = set ys \<and> length xs = length ys"
  by (metis mset_eq_setD mset_eq_length)

lemma ex_temps: "temperatures_of [ex_src p t ws c, ex_src p' t' ws' c'] = [t, t']"
  by (simp add: temperatures_of_def List.map_filter_def ex_src_def ex_rec_def)

lemma ex_winds: "windSpeeds_of [ex_src p t ws c, ex_src p' t' ws' c'] = [ws, ws']"
  by (simp add: windSpeeds_of_def List.map_filter_def ex_src_def ex_rec_def)

text \<open>
  Claim C8, as stated, fails at the threshold: the spread is a difference of doubles and
  is rounded. Meteoblue at 8 degrees and Windy at 2.9999999999999996 are more than 5
  apart, but \<open>8 - 2.9999999999999996\<close> is the double 5, which is not above 5: the fusion
  has no warning.
\<close>

theorem fusion_discrepancy_rounding_counterexample:
  "temperatures_of [ex_src Meteoblue 8 20 0.95, ex_src Windy ex_below_three 20 0.9]
     = [8, ex_below_three]
   \<and> 5 < Max {8, ex_below_three} - Min {8, ex_below_three}
   \<and> map_sum id warnings
        (mergeWeatherData [ex_src Meteoblue 8 20 0.95, ex_src Windy ex_below_three 20 0.9])
     = Inr []"
proof -
  let ?srcs = "[ex_src Meteoblue 8 20 0.95, ex_src Windy ex_below_three 20 0.9]"
  have sorted: "sortSources ?srcs = ex_src Meteoblue 8 20 0.95 # [ex_src Windy ex_below_three 20 0.9]"
    by (simp add: sortSources_def ex_src_def)
  have lt: "ex_below_three < 8" by (simp add: ex_below_three_def)
  then have mm: "fold max [ex_below_three] 8 = 8" "fold min [ex_below_three] 8 = ex_below_three"
    by simp_all
  have rT: "range_of [8, ex_below_three] = Some 5"
    by (simp only: range_of.simps mm binary64_examples)
  have rW: "range_of [20, 20 :: real] = Some 0"
    by (simp add: binary64_examples)
  from mergeWeatherData_Cons [OF sorted] obtain m where
    "mergeWeatherData ?srcs = Inr m" "warnings m = []"
    by (auto simp: ex_temps ex_winds rT rW simp del: range_of.simps)
  moreover have "5 < Max {8, ex_below_three} - Min {8, ex_below_three}"
    by (simp add: ex_below_three_def)
  ultimately show ?thesis by (simp add: ex_temps)
qed

text \<open>
  Claim C8, amended: the spread that is compared with the threshold is the one the code
  computes, the maximum minus the minimum rounded to the nearest double. Whenever at
  least two sources carry a temperature that is not \<open>null\<close>, the fusion succeeds with a
  record \<open>m\<close> such that: if the computed temperature spread exceeds 5, \<open>m\<close> has at least one
  warning, and that is so whenever the exact spread exceeds 5 by more than \<open>2^-51\<close>; if the
  exact temperature spread is at most 5 and the exact wind-speed spread is at most 15 (or
  no source carries a wind speed), \<open>m\<close> has no warning; and in either case the weather
  values of \<open>m\<close> are those of the record of one contributing source \<open>s0\<close>, the primary,
  whatever the warnings are.
\<close>

theorem fusion_discrepancy_warning:
  assumes "length (temperatures_of srcs) \<ge> 2"
  shows "\<exists>m s0. mergeWeatherData srcs = Inr m
           \<and> (binary64 (Max (set (temperatures_of srcs)) - Min (set (temperatures_of srcs))) > 5
                \<longrightarrow> warnings m \<noteq> [])
           \<and> (Max (set (temperatures_of srcs)) - Min (set (temperatures_of srcs)) > 5 + 1 / 2 ^ 51
                \<longrightarrow> warnings m \<noteq> [])
           \<and> (Max (set (temperatures_of srcs)) - Min (set (temperatures_of srcs)) \<le> 5
                \<and> (windSpeeds_of srcs = []
                    \<or> Max (set (windSpeeds_of srcs)) - Min (set (windSpeeds_of srcs)) \<le> 15)
                \<longrightarrow> warnings m = [])
           \<and> s0 \<in> set srcs
           \<and> primary m = WeatherSource.provider s0
           \<and> FusedRecord.temperature m = ProviderRecord.temperature (data s0)
           \<and> FusedRecord.windSpeed m = ProviderRecord.windSpeed (data s0)
           \<and> FusedRecord.windDirection m = ProviderRecord.windDirection (data s0)
           \<and> FusedRecord.precipitation m = ProviderRecord.precipitation (data s0)
           \<and> FusedRecord.humidity m = ProviderRecord.humidity (data s0)
           \<and> FusedRecord.pressure m = ProviderRecord.pressure (data s0)
           \<and> FusedRecord.cloudCover m = ProviderRecord.cloudCover (data s0)
           \<and> FusedRecord.visibility m = ProviderRecord.visibility (data s0)"
proof -
  let ?T = "temperatures_of srcs" and ?W = "windSpeeds_of srcs"
  have "length ?T \<le> length srcs"
    by (simp add: temperatures_of_def List.map_filter_def)
  with assms have "srcs \<noteq> []" by auto
  then obtain s0 rest where sorted: "sortSources srcs = s0 # rest"
    using sortSources_Cons_ex by blast
  have T: "set (temperatures_of (s0 # rest)) = set ?T" "length (temperatures_of (s0 # rest)) = length ?T"
    using mset_eq_set_length [OF temperatures_of_sorted [of srcs]] sorted by simp_all
  have W: "set (windSpeeds_of (s0 # rest)) = set ?W" "length (windSpeeds_of (s0 # rest)) = length ?W"
    using mset_eq_set_length [OF windSpeeds_of_sorted [of srcs]] sorted by simp_all
  have "length (temperatures_of xs) \<le> length xs" for xs
    by (simp add: temperatures_of_def List.map_filter_def)
  from this [of "[s0]"] T(2) assms have rest: "rest \<noteq> []" by auto
  have rT: "range_of (temperatures_of (s0 # rest)) = Some (binary64 (Max (set ?T) - Min (set ?T)))"
    using range_of_spread [of "temperatures_of (s0 # rest)"] T assms by simp
  have rW: "range_of (windSpeeds_of (s0 # rest)) =
              (if length ?W \<ge> 2 then Some (binary64 (Max (set ?W) - Min (set ?W))) else None)"
    using range_of_spread [of "windSpeeds_of (s0 # rest)"]
      range_of_short [of "windSpeeds_of (s0 # rest)"] W by auto
  have leT: "Max (set ?T) - Min (set ?T) \<le> 5 \<Longrightarrow> binary64 (Max (set ?T) - Min (set ?T)) \<le> 5"
    using binary64_le_int [of "Max (set ?T) - Min (set ?T)" 5] by simp
  have leW: "Max (set ?W) - Min (set ?W) \<le> 15 \<Longrightarrow> binary64 (Max (set ?W) - Min (set ?W)) \<le> 15"
    using binary64_le_int [of "Max (set ?W) - Min (set ?W)" 15] by simp
  from mergeWeatherData_Cons [OF sorted] obtain m where m:
    "mergeWeatherData srcs = Inr m"
    "primary m = WeatherSource.provider s0"
    "FusedRecord.temperature m = ProviderRecord.temperature (data s0)"
    "FusedRecord.windSpeed m = ProviderRecord.windSpeed (data s0)"
    "FusedRecord.windDirection m = ProviderRecord.windDirection (data s0)"
    "FusedRecord.precipitation m = ProviderRecord.precipitation (data s0)"
    "FusedRecord.humidity m = ProviderRecord.humidity (data s0)"
    "FusedRecord.pressure m = ProviderRecord.pressure (data s0)"
    "FusedRecord.cloudCover m = ProviderRecord.cloudCover (data s0)"
    "FusedRecord.visibility m = ProviderRecord.visibility (data s0)"
    "warnings m =
       (if rest = [] then []
        else (case range_of (temperatures_of (s0 # rest)) of
                None \<Rightarrow> []
              | Some r \<Rightarrow> if r > 5 then [TemperatureVariation (toFixed 1 r)] else [])
           @ (case range_of (windSpeeds_of (s0 # rest)) of
                None \<Rightarrow> []
              | Some r \<Rightarrow> if r > 15 then [WindVariation (toFixed 1 r)] else []))"
    by blast
  have w1: "binary64 (Max (set ?T) - Min (set ?T)) > 5 \<Longrightarrow> warnings m \<noteq> []"
    using m(11) rest rT by simp
  have w1': "Max (set ?T) - Min (set ?T) > 5 + 1 / 2 ^ 51 \<Longrightarrow> warnings m \<noteq> []"
    using w1 binary64_above_5 [of "Max (set ?T) - Min (set ?T)"] by blast
  have w2: "Max (set ?T) - Min (set ?T) \<le> 5 \<Longrightarrow>
            ?W = [] \<or> Max (set ?W) - Min (set ?W) \<le> 15 \<Longrightarrow> warnings m = []"
  proof -
    assume a: "Max (set ?T) - Min (set ?T) \<le> 5"
      and b: "?W = [] \<or> Max (set ?W) - Min (set ?W) \<le> 15"
    from a leT have t: "\<not> binary64 (Max (set ?T) - Min (set ?T)) > 5" by simp
    from b leW have "length ?W < 2 \<or> \<not> binary64 (Max (set ?W) - Min (set ?W)) > 15"
      by auto
    with t m(11) rest rT rW show ?thesis by (auto split: if_splits)
  qed
  have "s0 \<in> set srcs" using sorted by (rule sortSources_hd_in)
  with m w1 w1' w2 show ?thesis by blast
qed

text \<open>
  The theorem at two inputs: Windy at 12 degrees against meteoblue at 18 (spread 6, a
  warning), and Windy at 14 against meteoblue at 18 (spread 4, wind spread 10, none). The
  fused temperature is the primary's 18 both times.
\<close>

theorem fusion_discrepancy_warning_witness:
  "(\<exists>m. mergeWeatherData [ex_src Windy 12 30 0.9, ex_src Meteoblue 18 20 0.5] = Inr m
        \<and> warnings m \<noteq> [] \<and> FusedRecord.temperature m = Some 18)
   \<and> (\<exists>m. mergeWeatherData [ex_src Windy 14 30 0.9, ex_src Meteoblue 18 20 0.5] = Inr m
        \<and> warnings m = [] \<and> FusedRecord.temperature m = Some 18)"
proof -
  have p: "primary m = WeatherSource.provider s \<Longrightarrow>
           s \<in> {ex_src Windy a b c, ex_src Meteoblue 18 d e} \<Longrightarrow>
           mergeWeatherData [ex_src Windy a b c, ex_src Meteoblue 18 d e] = Inr m \<Longrightarrow>
           ProviderRecord.temperature (data s) = Some 18" for m s a b c d e
    by (auto simp: mergeWeatherData_def sortSources_def Let_def detect_eq Object_assign_def
          ex_src_def ex_rec_def simp del: range_of.simps)
  show ?thesis
    using fusion_discrepancy_warning [of "[ex_src Windy 12 30 0.9, ex_src Meteoblue 18 20 0.5]"]
      fusion_discrepancy_warning [of "[ex_src Windy 14 30 0.9, ex_src Meteoblue 18 20 0.5]"]
    by (auto simp: ex_temps ex_winds dest: p)
qed

text \<open>
  Claim C4. For a non-empty list \<open>srcs\<close> of source entries and any list \<open>srcs'\<close> with the same
  contributing providers (every permutation of \<open>srcs\<close> is one, and so is \<open>srcs\<close> with other
  records or other confidences), both fusions succeed with one record each and name the
  same primary. The primary is the provider of an entry \<open>s0\<close> of \<open>srcs\<close>, no entry of \<open>srcs\<close>
  has a higher priority weight, and the merged record takes every field of the record of
  \<open>s0\<close>: the eight weather fields, the timestamp and the provider.
\<close>

theorem fusion_primary_highest_priority:
  assumes "srcs \<noteq> []"
    and "mset (map WeatherSource.provider srcs') = mset (map WeatherSource.provider srcs)"
  shows "\<exists>m m' s0. mergeWeatherData srcs = Inr m \<and> mergeWeatherData srcs' = Inr m'
           \<and> primary m' = primary m
           \<and> s0 \<in> set srcs
           \<and> primary m = WeatherSource.provider s0
           \<and> (\<forall>s\<in>set srcs. priority (WeatherSource.provider s) \<le> priority (primary m))
           \<and> FusedRecord.temperature m = ProviderRecord.temperature (data s0)
           \<and> FusedRecord.windSpeed m = ProviderRecord.windSpeed (data s0)
           \<and> FusedRecord.windDirection m = ProviderRecord.windDirection (data s0)
           \<and> FusedRecord.precipitation m = ProviderRecord.precipitation (data s0)
           \<and> FusedRecord.humidity m = ProviderRecord.humidity (data s0)
           \<and> FusedRecord.pressure m = ProviderRecord.pressure (data s0)
           \<and> FusedRecord.cloudCover m = ProviderRecord.cloudCover (data s0)
           \<and> FusedRecord.visibility m = ProviderRecord.visibility (data s0)
           \<and> FusedRecord.timestamp m = Some (ProviderRecord.timestamp (data s0))
           \<and> FusedRecord.provider m = Some (ProviderRecord.provider (data s0))"
proof -
  from assms(2) have sets: "WeatherSource.provider ` set srcs' = WeatherSource.provider ` set srcs"
    by (metis mset_eq_setD set_map)
  from assms have "srcs' \<noteq> []" by auto
  then obtain s0' rest' where sorted': "sortSources srcs' = s0' # rest'"
    using sortSources_Cons_ex by blast
  from assms(1) obtain s0 rest where sorted: "sortSources srcs = s0 # rest"
    using sortSources_Cons_ex by blast
  have in0: "s0 \<in> set srcs" and in0': "s0' \<in> set srcs'"
    using sorted sorted' by (auto intro: sortSources_hd_in)
  have mx: "\<forall>s\<in>set srcs. priority (WeatherSource.provider s) \<le> priority (WeatherSource.provider s0)"
    using sortSources_hd_max [OF sorted] by blast
  have mx': "\<forall>s\<in>set srcs'. priority (WeatherSource.provider s) \<le> priority (WeatherSource.provider s0')"
    using sortSources_hd_max [OF sorted'] by blast
  from in0 sets obtain t' where "t' \<in> set srcs'" "WeatherSource.provider t' = WeatherSource.provider s0"
    by (metis imageE imageI)
  with mx' have le1: "priority (WeatherSource.provider s0) \<le> priority (WeatherSource.provider s0')"
    by metis
  from in0' sets obtain t where "t \<in> set srcs" "WeatherSource.provider t = WeatherSource.provider s0'"
    by (metis imageE imageI)
  with mx have le2: "priority (WeatherSource.provider s0') \<le> priority (WeatherSource.provider s0)"
    by metis
  from le1 le2 have same: "WeatherSource.provider s0' = WeatherSource.provider s0"
    by (intro priority_inj) simp
  from mergeWeatherData_Cons [OF sorted'] obtain m' where m':
    "mergeWeatherData srcs' = Inr m'" "primary m' = WeatherSource.provider s0'"
    by blast
  from mergeWeatherData_Cons [OF sorted] obtain m where m:
    "mergeWeatherData srcs = Inr m"
    "primary m = WeatherSource.provider s0"
    "FusedRecord.temperature m = ProviderRecord.temperature (data s0)"
    "FusedRecord.windSpeed m = ProviderRecord.windSpeed (data s0)"
    "FusedRecord.windDirection m = ProviderRecord.windDirection (data s0)"
    "FusedRecord.precipitation m = ProviderRecord.precipitation (data s0)"
    "FusedRecord.humidity m = ProviderRecord.humidity (data s0)"
    "FusedRecord.pressure m = ProviderRecord.pressure (data s0)"
    "FusedRecord.cloudCover m = ProviderRecord.cloudCover (data s0)"
    "FusedRecord.visibility m = ProviderRecord.visibility (data s0)"
    "FusedRecord.timestamp m = Some (ProviderRecord.timestamp (data s0))"
    "FusedRecord.provider m = Some (ProviderRecord.provider (data s0))"
    by blast
  from mx m(2) have "\<forall>s\<in>set srcs. priority (WeatherSource.provider s) \<le> priority (primary m)"
    by simp
  with m m' same in0 show ?thesis by (metis (no_types))
qed

text \<open>
  The theorem at Windy and meteoblue in both orders: the primary is meteoblue and the fused
  wind speed is meteoblue's 20.
\<close>

theorem fusion_primary_highest_priority_witness:
  "\<exists>m m'. mergeWeatherData [ex_src Windy 12 30 0.9, ex_src Meteoblue 18 20 0.5] = Inr m
      \<and> mergeWeatherData [ex_src Meteoblue 18 20 0.5, ex_src Windy 12 30 0.9] = Inr m'
      \<and> primary m = Meteoblue \<and> primary m' = Meteoblue
      \<and> FusedRecord.windSpeed m = Some 20"
proof -
  have ne: "[ex_src Windy 12 30 0.9, ex_src Meteoblue 18 20 0.5] \<noteq> []" by simp
  have perm: "mset (map WeatherSource.provider [ex_src Meteoblue 18 20 0.5, ex_src Windy 12 30 0.9])
            = mset (map WeatherSource.provider [ex_src Windy 12 30 0.9, ex_src Meteoblue 18 20 0.5])"
    by (simp add: ex_src_def)
  from fusion_primary_highest_priority [OF ne perm] obtain m m' s0 where f:
    "mergeWeatherData [ex_src Windy 12 30 0.9, ex_src Meteoblue 18 20 0.5] = Inr m"
    "mergeWeatherData [ex_src Meteoblue 18 20 0.5, ex_src Windy 12 30 0.9] = Inr m'"
    "primary m' = primary m"
    "s0 \<in> set [ex_src Windy 12 30 0.9, ex_src Meteoblue 18 20 0.5]"
    "primary m = WeatherSource.provider s0"
    "\<forall>s\<in>set [ex_src Windy 12 30 0.9, ex_src Meteoblue 18 20 0.5].
        priority (WeatherSource.provider s) \<le> priority (primary m)"
    "FusedRecord.windSpeed m = ProviderRecord.windSpeed (data s0)"
    by blast
  from f(6) have "priority Meteoblue \<le> priority (primary m)"
    by (simp add: ex_src_def)
  with f(4,5) have s0: "s0 = ex_src Meteoblue 18 20 0.5"
    by (auto simp: ex_src_def)
  with f show ?thesis by (simp add: ex_src_def ex_rec_def)
qed

text \<open>
  Claim C1. The claim says one contributing source gives the aggregate confidence 0.75.
  \<open>calculateConfidence\<close> does return 0.75 for one source, and \<open>mergeWeatherData\<close> writes it into
  \<open>merged\<close>; but the record of every adapter has a \<open>confidence\<close> key of its own, and
  \<open>Object.assign(merged, primaryData)\<close> then overwrites the aggregate with it. For a single
  AEMET record, whose confidence is always 0.80, the fused confidence is 0.80.
\<close>

theorem fusion_confidence_overwritten:
  "map_sum id FusedRecord.confidence (mergeWeatherData [ex_src Aemet 18 10 0.80]) = Inr 0.80
   \<and> calculateConfidence [ex_src Aemet 18 10 0.80] = 0.75"
  by (simp add: mergeWeatherData_def sortSources_def Let_def Object_assign_def calculateConfidence_def
        ex_src_def ex_rec_def)

section \<open>Properties of the risk classifier\<close>

text \<open>
  What one result with numeric wind, precipitation and temperature pushes, by type and
  level: the thresholds are strict, and a visibility of exactly 0 pushes nothing.
\<close>

lemma risksOf_thresholds:
  assumes "WeatherResult.weather r = Some w"
    and "FusedRecord.windSpeed w = Some ws"
    and "FusedRecord.precipitation w = Some pr"
    and "FusedRecord.temperature w = Some te"
  shows "map (\<lambda>a. (risk a, level a)) (risksOf i r) =
           (if ws > 40 then [(WindRisk, High)] else if ws > 25 then [(WindRisk, Medium)] else [])
         @ (if pr > 15 then [(PrecipitationRisk, High)]
            else if pr > 5 then [(PrecipitationRisk, Medium)] else [])
         @ (if te < 0 \<or> te > 35 then [(TemperatureRisk, Medium)] else [])
         @ (case FusedRecord.visibility w of
              None \<Rightarrow> []
            | Some v \<Rightarrow>
                if v = 0 then []
                else if v < 500 then [(VisibilityRisk, High)]
                else if v < 1000 then [(VisibilityRisk, Medium)] else [])"
  using assms by (auto simp: risksOf_def Let_def ToNumber_def truthy_def split: option.splits)

text \<open>
  The risks of a later waypoint follow those of the earlier ones.
\<close>

lemma identifyRisks_append:
  "identifyRisks (rs @ [r]) = identifyRisks rs @ risksOf (length rs) r"
  by (simp add: identifyRisks_def enumerate_append_eq)

text \<open>
  Claim C5. The claim says that a visibility, when present, alerts medium below 1000 m and
  high below 500 m. The guard \<open>weather.visibility && ...\<close> is there to skip \<open>null\<close>, but 0 is
  falsy as well: a fused record with visibility 0 m pushes no visibility alert, while
  visibility 1 m pushes a high one. The other thresholds of the claim hold
  (\<open>risksOf_thresholds\<close>).
\<close>

theorem risk_zero_visibility_no_alert:
  "identifyRisks [ex_result (Some 0)] = []
   \<and> map (\<lambda>a. (risk a, level a)) (identifyRisks [ex_result (Some 1)]) = [(VisibilityRisk, High)]"
  by (simp add: identifyRisks_def risksOf_def ex_result_def ToNumber_def truthy_def)

section \<open>Properties of the store and the rate limiter\<close>

lemma limits_max_pos: "map_of limits apiName = Some l \<Longrightarrow> 1 \<le> limit_max l"
  by (auto simp: limits_def split: if_splits)

lemma limits_window: "map_of limits apiName = Some l \<Longrightarrow> window l = 3600"
  by (auto simp: limits_def split: if_splits)

text \<open>
  Claim C9. When the store is unavailable (the client is disconnected, or every command
  rejects), a cache lookup gives \<open>null\<close> as a miss does, a cache write answers \<open>false\<close> and
  leaves the store as it was, and a rate-limit check answers allowed and leaves the store
  as it was, for every key, value, ttl, API name and scope. Each function returns a plain
  value: the client catches every error of the store itself, so no call has an error to
  raise.
\<close>

theorem store_unavailable_degrades:
  assumes "connection rc \<noteq> Connected"
  shows "RedisClient_get now key rc = None
       \<and> RedisClient_set now key val ttl rc = (False, rc)
       \<and> RedisClient_setex now key seconds val rc = (False, rc)
       \<and> checkRateLimit now apiName userId rc = (True, rc)"
proof -
  from assms have c: "connection rc = Disconnected \<or> connection rc = Failing"
    by (cases "connection rc") auto
  then have g: "RedisClient_get now key rc = None"
    by (auto simp: RedisClient_get_def)
  from c have s: "RedisClient_set now key val t rc = (False, rc)" for t
    by (auto simp: RedisClient_set_def)
  from c have i: "RedisClient_incr now k rc = (1, rc)" for k
    by (auto simp: RedisClient_incr_def)
  from c have e: "RedisClient_expire now k n rc = (False, rc)" for k n
    by (auto simp: RedisClient_expire_def)
  have r: "checkRateLimit now apiName userId rc = (True, rc)"
  proof (cases "map_of limits apiName")
    case None
    then show ?thesis by (simp add: checkRateLimit_def)
  next
    case (Some l)
    with limits_max_pos [OF Some] show ?thesis
      by (simp add: checkRateLimit_def i e)
  qed
  from g s r show ?thesis by (simp add: RedisClient_setex_def)
qed

text \<open>
  The theorem at a disconnected store, for Windy.
\<close>

theorem store_unavailable_degrades_witness:
  "RedisClient_get 0 (RateLimitKey ''windy'' ''global'') store_down = None
   \<and> RedisClient_setex 0 (RateLimitKey ''windy'' ''global'') 1800 (IntVal 7) store_down = (False, store_down)
   \<and> checkRateLimit 0 ''windy'' ''global'' store_down = (True, store_down)"
proof -
  have d: "connection store_down \<noteq> Connected" by (simp add: store_down_def)
  show ?thesis
    using store_unavailable_degrades [OF d, of 0 "RateLimitKey ''windy'' ''global''" "IntVal 7" None 1800 "''windy''" "''global''"]
    by simp
qed

text \<open>With the store unavailable every check is allowed and nothing is counted.\<close>

lemma checkRateLimit_unavailable:
  assumes "connection rc \<noteq> Connected"
  shows "checkRateLimit now apiName userId rc = (True, rc)"
proof -
  from assms have c: "connection rc = Disconnected \<or> connection rc = Failing"
    by (cases "connection rc") auto
  then have i: "RedisClient_incr now k rc = (1, rc)" for k
    by (auto simp: RedisClient_incr_def)
  from c have e: "RedisClient_expire now k n rc = (False, rc)" for k n
    by (auto simp: RedisClient_expire_def)
  show ?thesis
  proof (cases "map_of limits apiName")
    case None
    then show ?thesis by (simp add: checkRateLimit_def)
  next
    case (Some l)
    with limits_max_pos [OF Some] show ?thesis
      by (simp add: checkRateLimit_def i e)
  qed
qed

lemma checkRateLimits_unavailable:
  assumes "connection rc \<noteq> Connected"
  shows "checkRateLimits nows apiName userId rc = (replicate (length nows) True, rc)"
  using assms by (induction nows) (simp_all add: checkRateLimit_unavailable Let_def)

text \<open>
  The client of the service never sees a connection: no command is handed to ioredis
  before \<open>isConnected\<close> is set, and \<open>isConnected\<close> is set only once a command has been handed
  over. So in every state of the service a lookup misses, a write is dropped, and every
  rate-limit check is allowed, whatever the server holds.
\<close>

lemma service_client_never_connected:
  "service_client started rc \<Longrightarrow> \<not> started \<and> connection rc = Disconnected"
  by (induction rule: service_client.induct)
     (auto simp: RedisClient_new_def RedisClient_set_def RedisClient_incr_def
        RedisClient_expire_def)

lemma service_client_idle:
  assumes "service_client started rc"
  shows "RedisClient_get now key rc = None"
    and "RedisClient_setex now key seconds val rc = (False, rc)"
    and "checkRateLimits nows apiName userId rc = (replicate (length nows) True, rc)"
proof -
  from service_client_never_connected [OF assms] have d: "connection rc = Disconnected"
    by simp
  then show "RedisClient_get now key rc = None"
    by (simp add: RedisClient_get_def)
  from d show "RedisClient_setex now key seconds val rc = (False, rc)"
    by (simp add: RedisClient_setex_def RedisClient_set_def)
  from d show "checkRateLimits nows apiName userId rc = (replicate (length nows) True, rc)"
    by (intro checkRateLimits_unavailable) simp
qed

text \<open>
  Claim C2. The claim says that of the checks of one window the first \<open>max\<close> are allowed
  and the later ones denied, each check being counted. The service starts in front of a
  healthy server with no counter, and meteoblue (maximum 200) is checked 201 times within
  the hour. Every check is allowed, the 201st included, and nothing is counted: the
  client is still as the constructor left it and the server's keyspace is untouched,
  because \<open>RedisClient.incr\<close> returns its fallback 1 without handing \<open>INCR\<close> to ioredis.
\<close>

theorem rate_limit_never_denies:
  "map_of limits ''meteoblue'' = Some \<lparr>limit_max = 200, window = 3600\<rparr>
   \<and> checkRateLimits (0 # replicate 200 5) ''meteoblue'' ''global'' (RedisClient_new Map.empty)
       = (replicate 201 True, RedisClient_new Map.empty)"
proof -
  have "connection (RedisClient_new Map.empty) \<noteq> Connected"
    by (simp add: RedisClient_new_def)
  from checkRateLimits_unavailable [OF this, of "0 # replicate 200 5" "''meteoblue''" "''global''"]
  have "checkRateLimits (0 # replicate 200 5) ''meteoblue'' ''global'' (RedisClient_new Map.empty)
          = (replicate (Suc 200) True, RedisClient_new Map.empty)"
    by simp
  moreover have "Suc 200 = 201" by simp
  ultimately show ?thesis by (simp only: limits_def) simp
qed

lemma checkRateLimit_first:
  assumes "map_of limits apiName = Some l" and "connection rc = Connected"
    and "live now (db rc (RateLimitKey apiName userId)) = None"
  shows "checkRateLimit now apiName userId rc =
           (True, rc\<lparr>db := (db rc)(RateLimitKey apiName userId \<mapsto> (IntVal 1, Some (now + int (window l) * 1000)))\<rparr>)"
  using assms limits_max_pos [OF assms(1)]
  by (simp add: checkRateLimit_def RedisClient_incr_def RedisClient_expire_def live_def Let_def)

lemma checkRateLimit_next:
  assumes "map_of limits apiName = Some l" and "connection rc = Connected"
    and "db rc (RateLimitKey apiName userId) = Some (IntVal n, Some e)" and "now < e" and "1 \<le> n"
  shows "checkRateLimit now apiName userId rc =
           (n + 1 \<le> limit_max l, rc\<lparr>db := (db rc)(RateLimitKey apiName userId \<mapsto> (IntVal (n + 1), Some e))\<rparr>)"
  using assms
  by (auto simp: checkRateLimit_def RedisClient_incr_def RedisClient_expire_def live_def Let_def)

lemma checkRateLimits_within:
  assumes "map_of limits apiName = Some l" and "connection rc = Connected"
    and "db rc (RateLimitKey apiName userId) = Some (IntVal n, Some e)" and "1 \<le> n"
    and "\<forall>t\<in>set later. t < e"
  shows "fst (checkRateLimits later apiName userId rc) = map (\<lambda>k. n + 1 + int k \<le> limit_max l) [0..<length later]
       \<and> connection (snd (checkRateLimits later apiName userId rc)) = Connected
       \<and> db (snd (checkRateLimits later apiName userId rc)) (RateLimitKey apiName userId)
           = Some (IntVal (n + int (length later)), Some e)"
  using assms
proof (induction later arbitrary: rc n)
  case Nil
  then show ?case by simp
next
  case (Cons t later)
  let ?rc1 = "rc\<lparr>db := (db rc)(RateLimitKey apiName userId \<mapsto> (IntVal (n + 1), Some e))\<rparr>"
  have step: "checkRateLimit t apiName userId rc = (n + 1 \<le> limit_max l, ?rc1)"
    using Cons.prems by (intro checkRateLimit_next) auto
  have ih: "fst (checkRateLimits later apiName userId ?rc1) = map (\<lambda>k. (n + 1) + 1 + int k \<le> limit_max l) [0..<length later]
       \<and> connection (snd (checkRateLimits later apiName userId ?rc1)) = Connected
       \<and> db (snd (checkRateLimits later apiName userId ?rc1)) (RateLimitKey apiName userId)
           = Some (IntVal ((n + 1) + int (length later)), Some e)"
    using Cons.prems by (intro Cons.IH) auto
  have m: "map (\<lambda>k. n + 1 + int k \<le> limit_max l) [0..<length (t # later)]
         = (n + 1 \<le> limit_max l) # map (\<lambda>k. (n + 1) + 1 + int k \<le> limit_max l) [0..<length later]"
  proof -
    have "[0..<length (t # later)] = 0 # map Suc [0..<length later]"
      by (simp add: upt_conv_Cons map_Suc_upt del: upt_Suc)
    then show ?thesis by (simp add: o_def algebra_simps)
  qed
  have f: "fst (checkRateLimits (t # later) apiName userId rc)
             = (n + 1 \<le> limit_max l) # fst (checkRateLimits later apiName userId ?rc1)"
    and s: "snd (checkRateLimits (t # later) apiName userId rc)
             = snd (checkRateLimits later apiName userId ?rc1)"
    using step by (simp_all add: Let_def)
  have n: "n + int (length (t # later)) = (n + 1) + int (length later)"
    by simp
  show ?case
    unfolding m f s n using ih by blast
qed

text \<open>
  What the limiter does behind \<open>isAvailable()\<close>, in the states where the client has seen
  the \<open>connect\<close> event (none is a state of the service, by \<open>service_client_never_connected\<close>).
  The store holds no live counter for the API name and scope at \<open>t0\<close>. For a check at \<open>t0\<close>
  followed by any number of checks before \<open>t0 + window\<close>, the check number \<open>k\<close> (counting
  from 0) is allowed exactly when \<open>k\<close> is below the configured maximum. The counter left
  behind is the number of checks made, the denied ones included, and its expiry is
  \<open>t0 + window\<close>, as the first check set it. A check at or after the expiry is allowed
  again and leaves the counter at 1 with a new expiry.
\<close>

lemma checkRateLimits_connected_window:
  assumes "map_of limits apiName = Some l" and "connection rc = Connected"
    and "live t0 (db rc (RateLimitKey apiName userId)) = None"
    and "\<forall>t\<in>set later. t < t0 + int (window l) * 1000"
    and "t0 + int (window l) * 1000 \<le> t'"
  shows "fst (checkRateLimits (t0 # later) apiName userId rc)
           = map (\<lambda>k. int k < limit_max l) [0..<Suc (length later)]
       \<and> db (snd (checkRateLimits (t0 # later) apiName userId rc)) (RateLimitKey apiName userId)
           = Some (IntVal (1 + int (length later)), Some (t0 + int (window l) * 1000))
       \<and> fst (checkRateLimit t' apiName userId (snd (checkRateLimits (t0 # later) apiName userId rc)))
       \<and> db (snd (checkRateLimit t' apiName userId (snd (checkRateLimits (t0 # later) apiName userId rc))))
            (RateLimitKey apiName userId)
           = Some (IntVal 1, Some (t' + int (window l) * 1000))"
proof -
  let ?key = "RateLimitKey apiName userId"
  let ?e = "t0 + int (window l) * 1000"
  let ?rc1 = "rc\<lparr>db := (db rc)(?key \<mapsto> (IntVal 1, Some ?e))\<rparr>"
  have first: "checkRateLimit t0 apiName userId rc = (True, ?rc1)"
    using assms(1-3) by (rule checkRateLimit_first)
  have rest: "fst (checkRateLimits later apiName userId ?rc1) = map (\<lambda>k. 1 + 1 + int k \<le> limit_max l) [0..<length later]
       \<and> connection (snd (checkRateLimits later apiName userId ?rc1)) = Connected
       \<and> db (snd (checkRateLimits later apiName userId ?rc1)) ?key = Some (IntVal (1 + int (length later)), Some ?e)"
    using assms by (intro checkRateLimits_within) auto
  let ?rc2 = "snd (checkRateLimits later apiName userId ?rc1)"
  have all: "checkRateLimits (t0 # later) apiName userId rc
               = (True # fst (checkRateLimits later apiName userId ?rc1), ?rc2)"
    using first by (simp add: Let_def)
  have m: "map (\<lambda>k. int k < limit_max l) [0..<Suc (length later)]
         = True # map (\<lambda>k. 1 + 1 + int k \<le> limit_max l) [0..<length later]"
    using limits_max_pos [OF assms(1)]
    by (auto simp: upt_conv_Cons map_Suc_upt [symmetric] simp del: upt_Suc)
  have expired: "live t' (db ?rc2 ?key) = None"
    using rest assms(5) by (simp add: live_def)
  have again: "checkRateLimit t' apiName userId ?rc2 =
           (True, ?rc2\<lparr>db := (db ?rc2)(?key \<mapsto> (IntVal 1, Some (t' + int (window l) * 1000)))\<rparr>)"
    using assms(1) rest expired by (intro checkRateLimit_first) auto
  show ?thesis
    unfolding all m using rest again by simp
qed

section \<open>Properties of the acquisition controller\<close>

lemma RedisClient_set_frame:
  "connection (snd (RedisClient_set now k v ttl rc)) = connection rc"
  "k' \<noteq> k \<Longrightarrow> db (snd (RedisClient_set now k v ttl rc)) k' = db rc k'"
  by (auto simp: RedisClient_set_def split: option.splits)

lemma logApiCall_frame:
  "connection (logApiCall now apiName b rc) = connection rc"
  "(\<And>a h. k \<noteq> ApiStatsKey a h) \<Longrightarrow> db (logApiCall now apiName b rc) k = db rc k"
  by (auto simp: logApiCall_def Let_def RedisClient_setex_def RedisClient_set_frame
      split: option.splits redis_value.splits)

lemma checkRateLimit_frame:
  "connection (snd (checkRateLimit now apiName userId rc)) = connection rc"
  "(\<And>a u. k \<noteq> RateLimitKey a u) \<Longrightarrow> db (snd (checkRateLimit now apiName userId rc)) k = db rc k"
  by (auto simp: checkRateLimit_def Let_def RedisClient_incr_def RedisClient_expire_def
      split: option.splits redis_value.splits prod.splits)

lemma tryProvider_connection:
  "connection (redis (fst (tryProvider env now la lo t q acc))) = connection (redis (fst acc))"
  by (simp add: tryProvider_def Let_def logApiCall_frame checkRateLimit_frame RedisClient_setex_def
      RedisClient_set_frame split: option.splits redis_value.splits sum.splits)

lemma tryProvider_other:
  assumes "q \<noteq> p"
  shows "db (redis (fst (tryProvider env now la lo t q acc))) (WeatherKey p a b h)
           = db (redis (fst acc)) (WeatherKey p a b h)"
    and "filter (\<lambda>c. fst c = p) (adapter_calls (fst (tryProvider env now la lo t q acc)))
           = filter (\<lambda>c. fst c = p) (adapter_calls (fst acc))"
    and "filter (\<lambda>s. WeatherSource.provider s = p) (snd (tryProvider env now la lo t q acc))
           = filter (\<lambda>s. WeatherSource.provider s = p) (snd acc)"
  using assms
  by (simp_all add: tryProvider_def Let_def logApiCall_frame checkRateLimit_frame
      RedisClient_setex_def RedisClient_set_frame cacheKey_def
      split: option.splits redis_value.splits sum.splits)

lemma tryProvider_hit:
  assumes "connection (redis (fst acc)) = Connected"
    and "db (redis (fst acc)) (cacheKey p la lo t) = Some (RecordVal d, Some e)"
    and "now < e" and "isAvailable env p"
  shows "tryProvider env now la lo t p acc
           = (fst acc, snd acc @ [\<lparr>WeatherSource.provider = p, data = d, cached = True\<rparr>])"
  using assms by (simp add: tryProvider_def Let_def RedisClient_get_def live_def)

lemma tryProvider_fetch:
  assumes "connection (redis (fst acc)) = Connected"
    and "\<lparr>WeatherSource.provider = p, data = d, cached = False\<rparr> \<in> set (snd (tryProvider env now la lo t p acc))"
    and "\<lparr>WeatherSource.provider = p, data = d, cached = False\<rparr> \<notin> set (snd acc)"
  shows "db (redis (fst (tryProvider env now la lo t p acc))) (cacheKey p la lo t)
           = Some (RecordVal d, Some (now + 1800000))
         \<and> isAvailable env p"
proof -
  have c: "connection (snd (checkRateLimit now (provider_name p) ''global'' (redis (fst acc)))) = Connected"
    using assms(1) by (simp add: checkRateLimit_frame)
  show ?thesis
    using assms(2,3) c
    by (auto simp: tryProvider_def Let_def logApiCall_frame RedisClient_setex_def RedisClient_set_def
        cacheKey_def split: option.splits redis_value.splits sum.splits if_splits)
qed

lemma foldl_tryProvider_connection:
  "connection (redis (fst (foldl (\<lambda>acc q. tryProvider env now la lo t q acc) acc ps)))
     = connection (redis (fst acc))"
  by (induction ps arbitrary: acc) (simp_all add: tryProvider_connection)

lemma foldl_tryProvider_other:
  assumes "p \<notin> set ps"
  shows "db (redis (fst (foldl (\<lambda>acc q. tryProvider env now la lo t q acc) acc ps))) (WeatherKey p a b h)
           = db (redis (fst acc)) (WeatherKey p a b h)
       \<and> filter (\<lambda>c. fst c = p) (adapter_calls (fst (foldl (\<lambda>acc q. tryProvider env now la lo t q acc) acc ps)))
           = filter (\<lambda>c. fst c = p) (adapter_calls (fst acc))
       \<and> filter (\<lambda>s. WeatherSource.provider s = p) (snd (foldl (\<lambda>acc q. tryProvider env now la lo t q acc) acc ps))
           = filter (\<lambda>s. WeatherSource.provider s = p) (snd acc)"
  using assms
proof (induction ps arbitrary: acc)
  case Nil
  then show ?case by simp
next
  case (Cons q ps)
  then have "q \<noteq> p" "p \<notin> set ps" by auto
  with Cons.IH [of "tryProvider env now la lo t q acc"] show ?case
    by (simp add: tryProvider_other)
qed

lemma providerPriority_split:
  "\<exists>ps1 ps2. providerPriority = ps1 @ p # ps2 \<and> p \<notin> set ps1 \<and> p \<notin> set ps2"
proof (cases p)
  case Meteoblue
  then show ?thesis
    by (intro exI [of _ "[]"] exI [of _ "[Aemet, Windy, Meteored]"]) (simp add: providerPriority_def)
next
  case Aemet
  then show ?thesis
    by (intro exI [of _ "[Meteoblue]"] exI [of _ "[Windy, Meteored]"]) (simp add: providerPriority_def)
next
  case Windy
  then show ?thesis
    by (intro exI [of _ "[Meteoblue, Aemet]"] exI [of _ "[Meteored]"]) (simp add: providerPriority_def)
next
  case Meteored
  then show ?thesis
    by (intro exI [of _ "[Meteoblue, Aemet, Windy]"] exI [of _ "[]"]) (simp add: providerPriority_def)
qed

lemma getWeatherForPoint_world:
  "snd (getWeatherForPoint env now la lo t w) = fst (gatherSources env now la lo t w)"
  by (simp add: getWeatherForPoint_def Let_def)

text \<open>
  What the acquisition does behind \<open>isAvailable()\<close>, in the states where the client has
  seen the \<open>connect\<close> event (none is a state of the service). A first acquisition at clock
  \<open>now1\<close> fetched the record \<open>d\<close> from provider \<open>p\<close> (a source of \<open>p\<close> that did not come from
  the cache). A second acquisition, for a point with the same \<open>toFixed(3)\<close> coordinates and
  a target time in the same hour bucket, runs at a clock \<open>now2\<close> less than 30 minutes after
  \<open>now1\<close>. Then both use the same cache key for \<open>p\<close>, the second acquisition invokes the
  adapter of \<open>p\<close> not once (the invocations of \<open>p\<close> in the log are those of before), and its
  one source of \<open>p\<close> is the record \<open>d\<close>, marked as cached.
\<close>

lemma cache_hit_connected:
  assumes conn: "connection (redis w) = Connected"
    and fetched: "\<lparr>WeatherSource.provider = p, data = d, cached = False\<rparr>
                    \<in> set (snd (gatherSources env now1 la lo t w))"
    and cell: "toFixed 3 la' = toFixed 3 la" "toFixed 3 lo' = toFixed 3 lo"
              "map_option (\<lambda>t. t div 3600000) t' = map_option (\<lambda>t. t div 3600000) t"
    and soon: "now2 < now1 + 1800000"
  shows "cacheKey p la' lo' t' = cacheKey p la lo t
       \<and> filter (\<lambda>c. fst c = p)
            (adapter_calls (snd (getWeatherForPoint env now2 la' lo' t'
               (snd (getWeatherForPoint env now1 la lo t w)))))
           = filter (\<lambda>c. fst c = p) (adapter_calls (snd (getWeatherForPoint env now1 la lo t w)))
       \<and> filter (\<lambda>s. WeatherSource.provider s = p)
            (snd (gatherSources env now2 la' lo' t' (snd (getWeatherForPoint env now1 la lo t w))))
           = [\<lparr>WeatherSource.provider = p, data = d, cached = True\<rparr>]"
proof -
  obtain ps1 ps2 where ps: "providerPriority = ps1 @ p # ps2" "p \<notin> set ps1" "p \<notin> set ps2"
    using providerPriority_split by blast
  have key: "cacheKey p la' lo' t' = cacheKey p la lo t"
    using cell by (simp add: cacheKey_def)
  obtain a b h where k: "cacheKey p la lo t = WeatherKey p a b h"
    by (simp add: cacheKey_def)
  let ?step1 = "\<lambda>acc q. tryProvider env now1 la lo t q acc"
  let ?step2 = "\<lambda>acc q. tryProvider env now2 la' lo' t' q acc"
  \<comment> \<open>the first acquisition\<close>
  let ?A = "foldl ?step1 (w, []) ps1"
  let ?B = "tryProvider env now1 la lo t p ?A"
  let ?C = "foldl ?step1 ?B ps2"
  have g1: "gatherSources env now1 la lo t w = ?C"
    by (simp add: gatherSources_def ps)
  have connA: "connection (redis (fst ?A)) = Connected"
    using conn by (simp add: foldl_tryProvider_connection)
  have noneA: "filter (\<lambda>s. WeatherSource.provider s = p) (snd ?A) = []"
    using foldl_tryProvider_other [OF ps(2), of env now1 la lo t "(w, [])"] by simp
  then have notA: "\<lparr>WeatherSource.provider = p, data = d, cached = False\<rparr> \<notin> set (snd ?A)"
    by (auto simp: filter_empty_conv)
  have "filter (\<lambda>s. WeatherSource.provider s = p) (snd ?C) = filter (\<lambda>s. WeatherSource.provider s = p) (snd ?B)"
    using foldl_tryProvider_other [OF ps(3), of env now1 la lo t ?B] by simp
  moreover have "\<lparr>WeatherSource.provider = p, data = d, cached = False\<rparr>
                   \<in> set (filter (\<lambda>s. WeatherSource.provider s = p) (snd ?C))"
    using fetched g1 by simp
  ultimately have inB: "\<lparr>WeatherSource.provider = p, data = d, cached = False\<rparr> \<in> set (snd ?B)"
    by simp
  from tryProvider_fetch [OF connA inB notA]
  have dbB: "db (redis (fst ?B)) (cacheKey p la lo t) = Some (RecordVal d, Some (now1 + 1800000))"
    and avail: "isAvailable env p" by simp_all
  have dbC: "db (redis (fst ?C)) (cacheKey p la lo t) = Some (RecordVal d, Some (now1 + 1800000))"
    using foldl_tryProvider_other [OF ps(3), of env now1 la lo t ?B a b h] dbB k by simp
  have connC: "connection (redis (fst ?C)) = Connected"
    using conn by (simp add: foldl_tryProvider_connection tryProvider_connection)
  \<comment> \<open>the second acquisition\<close>
  let ?w1 = "fst ?C"
  let ?D = "foldl ?step2 (?w1, []) ps1"
  let ?E = "tryProvider env now2 la' lo' t' p ?D"
  let ?F = "foldl ?step2 ?E ps2"
  have g2: "gatherSources env now2 la' lo' t' ?w1 = ?F"
    by (simp add: gatherSources_def ps)
  have frameD: "db (redis (fst ?D)) (cacheKey p la lo t) = Some (RecordVal d, Some (now1 + 1800000))"
    "filter (\<lambda>c. fst c = p) (adapter_calls (fst ?D)) = filter (\<lambda>c. fst c = p) (adapter_calls ?w1)"
    "filter (\<lambda>s. WeatherSource.provider s = p) (snd ?D) = []"
    using foldl_tryProvider_other [OF ps(2), of env now2 la' lo' t' "(?w1, [])" a b h] dbC k by simp_all
  have connD: "connection (redis (fst ?D)) = Connected"
    using connC by (simp add: foldl_tryProvider_connection)
  have E: "?E = (fst ?D, snd ?D @ [\<lparr>WeatherSource.provider = p, data = d, cached = True\<rparr>])"
    using connD frameD(1) soon avail key by (intro tryProvider_hit) simp_all
  have frameF:
    "filter (\<lambda>c. fst c = p) (adapter_calls (fst ?F)) = filter (\<lambda>c. fst c = p) (adapter_calls (fst ?E))"
    "filter (\<lambda>s. WeatherSource.provider s = p) (snd ?F) = filter (\<lambda>s. WeatherSource.provider s = p) (snd ?E)"
    using foldl_tryProvider_other [OF ps(3), of env now2 la' lo' t' ?E] by simp_all
  have calls: "filter (\<lambda>c. fst c = p) (adapter_calls (fst ?F)) = filter (\<lambda>c. fst c = p) (adapter_calls ?w1)"
    using frameF(1) frameD(2) E by simp
  have srcs: "filter (\<lambda>s. WeatherSource.provider s = p) (snd ?F)
                = [\<lparr>WeatherSource.provider = p, data = d, cached = True\<rparr>]"
    using frameF(2) frameD(3) E by simp
  show ?thesis
    using key calls srcs by (simp add: getWeatherForPoint_world g1 g2)
qed

lemma toFixed_ex:
  "toFixed 3 ex_lat = (False, 40417)" "toFixed 3 ex_lat_near = (False, 40417)"
  "toFixed 3 ex_lon = (True, 3704)" "ex_lat < 41" "ex_lat_near < 41"
  by (simp_all add: toFixed_def ex_lat_def ex_lat_near_def ex_lon_def)

lemmas acquisition_eval =
  gatherSources_def providerPriority_def tryProvider_def world_new_def
  RedisClient_new_def RedisClient_get_def RedisClient_set_def RedisClient_setex_def live_def
  checkRateLimit_def limits_def RedisClient_incr_def RedisClient_expire_def logApiCall_def
  cacheKey_def Let_def

text \<open>
  In the service every acquisition finds the cache empty and leaves it empty: each
  available provider's adapter is invoked, whatever was fetched before.
\<close>

lemma service_client_tryProvider:
  assumes "service_client started (redis (fst acc))" and "isAvailable env p"
  shows "adapter_calls (fst (tryProvider env now la lo t p acc))
           = adapter_calls (fst acc) @ [(p, la, lo, t)]"
    and "redis (fst (tryProvider env now la lo t p acc)) = redis (fst acc)"
proof -
  from service_client_never_connected [OF assms(1)]
  have d: "connection (redis (fst acc)) = Disconnected" by simp
  then have c: "checkRateLimit now (provider_name p) ''global'' (redis (fst acc))
                  = (True, redis (fst acc))"
    by (intro checkRateLimit_unavailable) simp
  from d assms(2) show "adapter_calls (fst (tryProvider env now la lo t p acc))
           = adapter_calls (fst acc) @ [(p, la, lo, t)]"
    by (simp add: tryProvider_def Let_def RedisClient_get_def c RedisClient_setex_def
        RedisClient_set_def logApiCall_def split: sum.splits)
  from d assms(2) show "redis (fst (tryProvider env now la lo t p acc)) = redis (fst acc)"
    by (simp add: tryProvider_def Let_def RedisClient_get_def c RedisClient_setex_def
        RedisClient_set_def logApiCall_def split: sum.splits)
qed

text \<open>
  Claim C7. The claim says that a second acquisition for the same provider, rounded point
  and hour within 30 minutes of a successful fetch is answered from the cache, with no
  second adapter call. The service starts in front of a healthy server; a first
  acquisition fetches a record from meteoblue, and a second one runs one second later for
  a point of the same cell and the same hour, under the same cache key. Meteoblue's
  adapter is invoked again: \<open>RedisClient.setex\<close> dropped the record and \<open>RedisClient.get\<close>
  answers \<open>null\<close>, neither handing a command to ioredis.
\<close>

theorem cache_never_answers:
  "snd (gatherSources env_meteoblue 0 ex_lat ex_lon (Some 0) world_new)
     = [\<lparr>WeatherSource.provider = Meteoblue, data = ex_rec Meteoblue 18 20 0.95, cached = False\<rparr>]
   \<and> cacheKey Meteoblue ex_lat_near ex_lon (Some 1000) = cacheKey Meteoblue ex_lat ex_lon (Some 0)
   \<and> adapter_calls (snd (getWeatherForPoint env_meteoblue 1000 ex_lat_near ex_lon (Some 1000)
         (snd (getWeatherForPoint env_meteoblue 0 ex_lat ex_lon (Some 0) world_new))))
     = [(Meteoblue, ex_lat, ex_lon, Some 0), (Meteoblue, ex_lat_near, ex_lon, Some 1000)]
   \<and> snd (gatherSources env_meteoblue 1000 ex_lat_near ex_lon (Some 1000)
         (snd (getWeatherForPoint env_meteoblue 0 ex_lat ex_lon (Some 0) world_new)))
     = [\<lparr>WeatherSource.provider = Meteoblue, data = ex_rec Meteoblue 18 20 0.95, cached = False\<rparr>]"
  by (simp add: getWeatherForPoint_world acquisition_eval env_meteoblue_def toFixed_ex)

lemma gatherSources_none_available:
  "(\<And>p. \<not> isAvailable env p) \<Longrightarrow> gatherSources env now la lo t w = (w, [])"
  by (simp add: gatherSources_def providerPriority_def tryProvider_def)

lemma getWeatherForPoint_result:
  "fst (getWeatherForPoint env now la lo t w) = Inl NoWeatherData
     \<longleftrightarrow> snd (gatherSources env now la lo t w) = []"
  "snd (gatherSources env now la lo t w) \<noteq> []
     \<Longrightarrow> \<exists>m. fst (getWeatherForPoint env now la lo t w) = Inr m"
proof -
  show "snd (gatherSources env now la lo t w) \<noteq> []
     \<Longrightarrow> \<exists>m. fst (getWeatherForPoint env now la lo t w) = Inr m"
    using sortSources_Cons_ex mergeWeatherData_Cons
    by (fastforce simp: getWeatherForPoint_def Let_def)
  then show "fst (getWeatherForPoint env now la lo t w) = Inl NoWeatherData
     \<longleftrightarrow> snd (gatherSources env now la lo t w) = []"
    by (auto simp: getWeatherForPoint_def Let_def)
qed

text \<open>
  The route loop. A waypoint whose estimated time is a date gets an entry of its own, with
  the fused record or with a \<open>null\<close> weather and the error, and the loop goes on. A
  waypoint whose estimated time is not a date ends the request: the route is answered
  500, whatever the other waypoints are. The request is answered 400 exactly when the
  waypoint list is missing, not an array or empty.
\<close>

lemma getWeatherForWaypoints_valid_step:
  assumes "estimatedTimeOf now wp = Some stamp"
  shows "getWeatherForWaypoints env now (wp # rest) w =
     (let r = getWeatherForPoint env now (lat wp) (lon wp) (Some stamp) w;
          more = getWeatherForWaypoints env now rest (snd r)
      in (map_sum id
            ((#) (case fst r of
                    Inl e \<Rightarrow> \<lparr>waypoint = wp, weather = None, error = Some e,
                               WeatherResult.timestamp = stamp\<rparr>
                  | Inr m \<Rightarrow> \<lparr>waypoint = wp, weather = Some m, error = None,
                               WeatherResult.timestamp = stamp\<rparr>))
            (fst more),
          snd more))"
  using assms by (simp add: Let_def split: sum.splits)

lemma getWeatherForWaypoints_invalid_date:
  assumes "\<exists>wp\<in>set wps. estimatedTimeOf now wp = None"
  shows "fst (getWeatherForWaypoints env now wps w) = Inl RangeError"
  using assms
proof (induction wps arbitrary: w)
  case Nil
  then show ?case by simp
next
  case (Cons wp rest)
  show ?case
  proof (cases "estimatedTimeOf now wp")
    case None
    then show ?thesis by (simp add: Let_def)
  next
    case (Some stamp)
    with Cons.prems have "\<exists>wp\<in>set rest. estimatedTimeOf now wp = None" by auto
    from Cons.IH [OF this] Some show ?thesis by (simp add: Let_def)
  qed
qed

lemma getWeatherForWaypoints_valid_dates:
  assumes "\<forall>wp\<in>set wps. estimatedTimeOf now wp \<noteq> None"
  shows "\<exists>results. fst (getWeatherForWaypoints env now wps w) = Inr results
           \<and> map waypoint results = wps"
  using assms
proof (induction wps arbitrary: w)
  case Nil
  then show ?case by simp
next
  case (Cons wp rest)
  then obtain stamp where st: "estimatedTimeOf now wp = Some stamp" by auto
  from Cons.prems have "\<forall>wp\<in>set rest. estimatedTimeOf now wp \<noteq> None" by simp
  from Cons.IH [OF this] obtain results where
    "fst (getWeatherForWaypoints env now rest
       (snd (getWeatherForPoint env now (lat wp) (lon wp) (Some stamp) w))) = Inr results"
    "map waypoint results = rest"
    by blast
  then show ?case
    by (simp add: getWeatherForWaypoints_valid_step [OF st] Let_def
        del: getWeatherForWaypoints.simps split: sum.splits)
qed

lemma weather_for_route_status:
  "fst (weather_for_route env now field w) = Status400
     \<longleftrightarrow> field = Absent \<or> field = NotAnArray \<or> field = WaypointArray []"
  "wps \<noteq> [] \<Longrightarrow> fst (getWeatherForWaypoints env now wps w) = Inl e
     \<Longrightarrow> fst (weather_for_route env now (WaypointArray wps) w) = Status500 e"
  "wps \<noteq> [] \<Longrightarrow> fst (getWeatherForWaypoints env now wps w) = Inr results
     \<Longrightarrow> fst (weather_for_route env now (WaypointArray wps) w) =
           Status200 \<lparr>weatherData = results, risks = identifyRisks results,
                      RouteResponse.sources = getUsedSources results\<rparr>"
proof -
  show "fst (weather_for_route env now field w) = Status400
     \<longleftrightarrow> field = Absent \<or> field = NotAnArray \<or> field = WaypointArray []"
    by (cases field) (auto simp: weather_for_route_def Let_def split: sum.splits)
  show "wps \<noteq> [] \<Longrightarrow> fst (getWeatherForWaypoints env now wps w) = Inl e
     \<Longrightarrow> fst (weather_for_route env now (WaypointArray wps) w) = Status500 e"
    by (simp add: weather_for_route_def Let_def)
  show "wps \<noteq> [] \<Longrightarrow> fst (getWeatherForWaypoints env now wps w) = Inr results
     \<Longrightarrow> fst (weather_for_route env now (WaypointArray wps) w) =
           Status200 \<lparr>weatherData = results, risks = identifyRisks results,
                      RouteResponse.sources = getUsedSources results\<rparr>"
    by (simp add: weather_for_route_def Let_def)
qed

lemma ex_estimated:
  "estimatedTimeOf 0 wp_north = Some 0" "estimatedTimeOf 0 wp_south = Some 1800000"
  "estimatedTimeOf 0 wp_far = None"
  by (simp_all add: estimatedTimeOf_def TimeClip_def truthy_def ToNumber_def wp_north_def
      wp_south_def wp_far_def binary64_examples)

text \<open>
  Claim C6. The claim says that a waypoint for which no provider gives a record gets a
  \<open>null\<close> weather and the error in the route response, the other entries being unaffected,
  and that the route as a whole fails only for a missing, non-array or empty waypoint
  list. No provider is configured. The route of one waypoint 30 minutes from the start is
  answered 200 with that entry. With a second waypoint 1e15 minutes from the start, whose
  acquisition fails with \<open>NoWeatherData\<close> as the first one's does, the route is answered
  500 and no entry is returned: the estimated time is not a date, and the \<open>catch\<close> that
  builds the degraded entry calls \<open>toISOString()\<close> on it, which throws a \<open>RangeError\<close> out of
  the loop.
\<close>

theorem route_invalid_date_fails_whole_route:
  "fst (getWeatherForPoint env_none 0 (lat wp_far) (lon wp_far) (estimatedTimeOf 0 wp_far) world_new)
     = Inl NoWeatherData
   \<and> fst (weather_for_route env_none 0 (WaypointArray [wp_south]) world_new)
     = Status200
         \<lparr>weatherData = [\<lparr>waypoint = wp_south, weather = None, error = Some NoWeatherData,
                            WeatherResult.timestamp = 1800000\<rparr>],
          risks = [], RouteResponse.sources = []\<rparr>
   \<and> fst (weather_for_route env_none 0 (WaypointArray [wp_south, wp_far]) world_new)
     = Status500 RangeError"
proof -
  have none: "gatherSources env_none now la lo t w = (w, [])" for now la lo t w
    by (rule gatherSources_none_available) (simp add: env_none_def)
  have point: "getWeatherForPoint env_none now la lo t w = (Inl NoWeatherData, w)" for now la lo t w
    by (simp add: getWeatherForPoint_def none)
  show ?thesis
    by (simp add: weather_for_route_def point ex_estimated identifyRisks_def risksOf_def
        getUsedSources_def)
qed

section \<open>Properties of the point handler\<close>

text \<open>
  Claim C10. A point request whose latitude or longitude is the number 0 is answered 400,
  and nothing is acquired: \<open>!lat || !lon\<close> takes 0 for a missing value.
\<close>

theorem point_zero_coordinate_rejected:
  assumes "la = JNum 0 \<or> lo = JNum 0"
  shows "weather_for_point env now la lo tsf w = (Status400, w)"
  using assms by (auto simp: weather_for_point_def)

text \<open>
  The theorem on the equator and on the prime meridian.
\<close>

theorem point_zero_coordinate_rejected_witness:
  "weather_for_point env_none 0 (JNum 0) (JNum (-3.7)) NoTimestamp world_new = (Status400, world_new)
   \<and> weather_for_point env_none 0 (JNum 40.4) (JNum 0) NoTimestamp world_new = (Status400, world_new)"
  using point_zero_coordinate_rejected [of "JNum 0" "JNum (-3.7)" env_none 0 NoTimestamp world_new]
    point_zero_coordinate_rejected [of "JNum 40.4" "JNum 0" env_none 0 NoTimestamp world_new]
  by simp

section \<open>Properties of the provider adapters\<close>

text \<open>
  Claim C3, as stated, fails: the AEMET adapter parses a day with neither \<open>temperatura\<close> nor
  \<open>viento\<close> into a record, with a \<open>null\<close> temperature and the fallback wind speed 10.
\<close>

theorem adapter_missing_required_counterexample:
  "AemetProvider_parseResponse (Some [\<lparr>dia = Some [ex_aemet_day]\<rparr>]) 0 =
     Inr \<lparr>ProviderRecord.temperature = None, ProviderRecord.windSpeed = Some 10,
          ProviderRecord.windDirection = Some (Compass ''Variable''),
          ProviderRecord.precipitation = Some 0, ProviderRecord.humidity = None,
          ProviderRecord.pressure = None, ProviderRecord.cloudCover = None,
          ProviderRecord.visibility = None, ProviderRecord.timestamp = 0,
          ProviderRecord.provider = Aemet, ProviderRecord.confidence = 0.80\<rparr>"
  by (simp add: AemetProvider_parseResponse_def ex_aemet_day_def AemetProvider_extractTemperature_def
      AemetProvider_extractWindSpeed_def AemetProvider_extractWindDirection_def
      AemetProvider_extractPrecipitation_def AemetProvider_extractHumidity_def
      AemetProvider_extractCloudCover_def)

text \<open>
  Windy returns a record with a \<open>null\<close> temperature and wind speed likewise.
\<close>

lemma windy_missing_required:
  "WindyProvider_parseResponse ex_windy 0 =
     Inr \<lparr>ProviderRecord.temperature = None, ProviderRecord.windSpeed = None,
          ProviderRecord.windDirection = None,
          ProviderRecord.precipitation = Some 0, ProviderRecord.humidity = None,
          ProviderRecord.pressure = None, ProviderRecord.cloudCover = None,
          ProviderRecord.visibility = None, ProviderRecord.timestamp = 0,
          ProviderRecord.provider = Windy, ProviderRecord.confidence = 0.90\<rparr>"
  by (simp add: WindyProvider_parseResponse_def ex_windy_def WindyProvider_getParameterValue_def
      WindyProvider_calculateWindSpeed_def WindyProvider_calculateConfidence_def truthy_def Let_def)

lemma closestForecastLoop_map:
  assumes "\<And>f. date (g f) = date f"
  shows "closestForecastLoop target (map g fs) (g b, n)
           = (g (fst (closestForecastLoop target fs (b, n))), snd (closestForecastLoop target fs (b, n)))"
  by (induction fs arbitrary: b n) (simp_all add: assms Let_def)

text \<open>
  Claim C3, amended. The meteoblue adapter returns no record without a temperature and a
  wind speed: when either series is missing, the parse fails. In each of the four
  adapters, the optional fields (humidity, pressure, cloud cover, visibility) degrade to
  \<open>null\<close>: taking them out of the upstream body changes neither whether the parse succeeds
  nor any other field of the record.
\<close>

theorem adapter_required_and_optional_fields:
  "(MeteoblueProvider_parseResponse (Some d) target = Inr r
      \<longrightarrow> ProviderRecord.temperature r \<noteq> None \<and> ProviderRecord.windSpeed r \<noteq> None)
   \<and> (Meteoblue1h.temperature d = None \<or> windspeed d = None
      \<longrightarrow> (\<exists>e. MeteoblueProvider_parseResponse (Some d) target = Inl e))
   \<and> MeteoblueProvider_parseResponse
        (Some (d\<lparr>relativehumidity := None, sealevelpressure := None, totalcloudcover := None,
                 Meteoblue1h.visibility := None\<rparr>)) target
       = map_sum id
           (\<lambda>r. r\<lparr>ProviderRecord.humidity := None, ProviderRecord.pressure := None,
                   ProviderRecord.cloudCover := None, ProviderRecord.visibility := None\<rparr>)
           (MeteoblueProvider_parseResponse (Some d) target)
   \<and> AemetProvider_parseResponse
        (Some (\<lparr>dia = Some (today\<lparr>humedadRelativa := None, estadoCielo := None\<rparr> # days)\<rparr> # forecasts))
        target
       = map_sum id
           (\<lambda>r. r\<lparr>ProviderRecord.humidity := None, ProviderRecord.cloudCover := None\<rparr>)
           (AemetProvider_parseResponse (Some (\<lparr>dia = Some (today # days)\<rparr> # forecasts)) target)
   \<and> WindyProvider_parseResponse
        (wd\<lparr>rh_surface := None, pressure_surface := None, cloudcover_surface := None\<rparr>) target
       = map_sum id
           (\<lambda>r. r\<lparr>ProviderRecord.humidity := None, ProviderRecord.pressure := None,
                   ProviderRecord.cloudCover := None\<rparr>)
           (WindyProvider_parseResponse wd target)
   \<and> MeteoredProvider_parseResponse
        (Some (map (\<lambda>f. f\<lparr>MeteoredForecast.humidity := None, MeteoredForecast.pressure := None,
                             cloudiness := None, clouds := None\<rparr>) fs)) target
       = map_sum id
           (\<lambda>r. r\<lparr>ProviderRecord.humidity := None, ProviderRecord.pressure := None,
                   ProviderRecord.cloudCover := None\<rparr>)
           (MeteoredProvider_parseResponse (Some fs) target)"
proof -
  have mb1: "MeteoblueProvider_parseResponse (Some d) target = Inr r
      \<longrightarrow> ProviderRecord.temperature r \<noteq> None \<and> ProviderRecord.windSpeed r \<noteq> None"
    by (auto simp: MeteoblueProvider_parseResponse_def Let_def split: option.splits list.splits if_splits)
  have mb2: "Meteoblue1h.temperature d = None \<or> windspeed d = None
      \<longrightarrow> (\<exists>e. MeteoblueProvider_parseResponse (Some d) target = Inl e)"
    by (auto simp: MeteoblueProvider_parseResponse_def Let_def getValueAtIndex_def
        split: option.splits list.splits)
  have mb3: "MeteoblueProvider_parseResponse
        (Some (d\<lparr>relativehumidity := None, sealevelpressure := None, totalcloudcover := None,
                 Meteoblue1h.visibility := None\<rparr>)) target
       = map_sum id
           (\<lambda>r. r\<lparr>ProviderRecord.humidity := None, ProviderRecord.pressure := None,
                   ProviderRecord.cloudCover := None, ProviderRecord.visibility := None\<rparr>)
           (MeteoblueProvider_parseResponse (Some d) target)"
    by (simp add: MeteoblueProvider_parseResponse_def Let_def getValueAtIndex_def
        split: option.splits list.splits)
  have ae: "AemetProvider_parseResponse
        (Some (\<lparr>dia = Some (today\<lparr>humedadRelativa := None, estadoCielo := None\<rparr> # days)\<rparr> # forecasts))
        target
       = map_sum id
           (\<lambda>r. r\<lparr>ProviderRecord.humidity := None, ProviderRecord.cloudCover := None\<rparr>)
           (AemetProvider_parseResponse (Some (\<lparr>dia = Some (today # days)\<rparr> # forecasts)) target)"
    by (simp add: AemetProvider_parseResponse_def AemetProvider_extractHumidity_def
        AemetProvider_extractCloudCover_def)
  have wi: "WindyProvider_parseResponse
        (wd\<lparr>rh_surface := None, pressure_surface := None, cloudcover_surface := None\<rparr>) target
       = map_sum id
           (\<lambda>r. r\<lparr>ProviderRecord.humidity := None, ProviderRecord.pressure := None,
                   ProviderRecord.cloudCover := None\<rparr>)
           (WindyProvider_parseResponse wd target)"
    by (simp add: WindyProvider_parseResponse_def Let_def WindyProvider_getParameterValue_def
        WindyProvider_calculateWindSpeed_def split: option.splits list.splits)
  let ?g = "\<lambda>f. f\<lparr>MeteoredForecast.humidity := None, MeteoredForecast.pressure := None,
                             cloudiness := None, clouds := None\<rparr>"
  have me: "MeteoredProvider_parseResponse (Some (map ?g fs)) target
       = map_sum id
           (\<lambda>r. r\<lparr>ProviderRecord.humidity := None, ProviderRecord.pressure := None,
                   ProviderRecord.cloudCover := None\<rparr>)
           (MeteoredProvider_parseResponse (Some fs) target)"
  proof (cases fs)
    case Nil
    then show ?thesis by (simp add: MeteoredProvider_parseResponse_def)
  next
    case (Cons f0 rest)
    have loop: "closestForecastLoop target (map ?g (f0 # rest)) (?g f0, \<bar>date f0 - target\<bar>)
                  = (?g (fst (closestForecastLoop target (f0 # rest) (f0, \<bar>date f0 - target\<bar>))),
                     snd (closestForecastLoop target (f0 # rest) (f0, \<bar>date f0 - target\<bar>)))"
      by (rule closestForecastLoop_map) simp
    have keep: "MeteoredProvider_extractTemperature (?g f) = MeteoredProvider_extractTemperature f"
      "MeteoredProvider_extractWindSpeed (?g f) = MeteoredProvider_extractWindSpeed f"
      "MeteoredProvider_extractWindDirection (?g f) = MeteoredProvider_extractWindDirection f"
      "MeteoredProvider_extractPrecipitation (?g f) = MeteoredProvider_extractPrecipitation f"
      "MeteoredProvider_extractHumidity (?g f) = None"
      "MeteoredProvider_extractPressure (?g f) = None"
      "MeteoredProvider_extractCloudCover (?g f) = None" for f
      by (simp_all add: MeteoredProvider_extractTemperature_def MeteoredProvider_extractWindSpeed_def
          MeteoredProvider_extractWindDirection_def MeteoredProvider_extractPrecipitation_def
          MeteoredProvider_extractHumidity_def MeteoredProvider_extractPressure_def
          MeteoredProvider_extractCloudCover_def truthy_def split: option.splits)
    show ?thesis
      unfolding Cons MeteoredProvider_parseResponse_def
      using loop
      by (simp add: Let_def keep del: closestForecastLoop.simps)
  qed
  from mb1 mb2 mb3 ae wi me show ?thesis by blast
qed

text \<open>
  The theorem on a meteoblue body with no temperature series, which fails, and on the
  same body with one, which parses with every optional field \<open>null\<close>.
\<close>

theorem adapter_required_and_optional_fields_witness:
  "MeteoblueProvider_parseResponse (Some ex_meteoblue) 0 = Inl MissingCriticalData
   \<and> MeteoblueProvider_parseResponse
        (Some (ex_meteoblue\<lparr>Meteoblue1h.temperature := Some [Some 9, Some 8]\<rparr>)) 0
       = Inr \<lparr>ProviderRecord.temperature = Some 9, ProviderRecord.windSpeed = Some 12,
          ProviderRecord.windDirection = None,
          ProviderRecord.precipitation = Some 0, ProviderRecord.humidity = None,
          ProviderRecord.pressure = None, ProviderRecord.cloudCover = None,
          ProviderRecord.visibility = None, ProviderRecord.timestamp = 0,
          ProviderRecord.provider = Meteoblue, ProviderRecord.confidence = 0.95\<rparr>"
proof -
  have "\<exists>e. MeteoblueProvider_parseResponse (Some ex_meteoblue) 0 = Inl e"
    using adapter_required_and_optional_fields [of ex_meteoblue 0]
    by (simp add: ex_meteoblue_def)
  then show ?thesis
    by (auto simp: MeteoblueProvider_parseResponse_def ex_meteoblue_def getValueAtIndex_def Let_def
        MeteoblueProvider_calculateConfidence_def truthy_def)
qed

end
